theory Spec2Isabelle
  imports Complex_Main
begin

section \<open>JavaScript strings and values\<close>

text \<open>
  A JavaScript string is modelled as a \<^typ>\<open>string\<close>: a list of characters with codes
  below 256 (the Latin-1 part of the UTF-16 code units). The helpers below are the
  built-in string operations that \<open>retry.ts\<close> and \<open>client.ts\<close> call.
\<close>

definition js_toLowerCase_char :: "char \<Rightarrow> char" where
  "js_toLowerCase_char c =
     (let n = (of_char c :: nat)
      in if (65 \<le> n \<and> n \<le> 90) \<or> (192 \<le> n \<and> n \<le> 222 \<and> n \<noteq> 215)
         then char_of (n + 32) else c)"

definition js_toLowerCase :: "string \<Rightarrow> string" where
  "js_toLowerCase s = map js_toLowerCase_char s"

fun js_startsWith :: "string \<Rightarrow> string \<Rightarrow> bool" where
  "js_startsWith s [] = True"
| "js_startsWith [] (p # ps) = False"
| "js_startsWith (c # cs) (p # ps) = (c = p \<and> js_startsWith cs ps)"

text \<open>\<open>s.includes(pat)\<close>: \<open>pat\<close> occurs in \<open>s\<close> as a contiguous substring.\<close>

fun js_includes :: "string \<Rightarrow> string \<Rightarrow> bool" where
  "js_includes [] pat = (pat = [])"
| "js_includes (c # cs) pat = (js_startsWith (c # cs) pat \<or> js_includes cs pat)"

definition digit_char :: "nat \<Rightarrow> char" where
  "digit_char d = char_of (48 + d)"

text \<open>
  The decimal digits of a natural number. This is what a template literal \<open>`${n}`\<close>
  produces for a Number that is a non-negative integer up to \<open>MAX_SAFE_INTEGER\<close>:
  every such integer is a Number, and a Number is written in plain digits below
  \<open>10^21\<close>. Above that bound these digits are not what the literal produces, and
  the properties that depend on the literal are stated up to the bound.
\<close>

fun js_show_nat :: "nat \<Rightarrow> string" where
  "js_show_nat n = (if n < 10 then [digit_char n] else js_show_nat (n div 10) @ [digit_char (n mod 10)])"

declare js_show_nat.simps [simp del]

definition js_show_int :: "int \<Rightarrow> string" where
  "js_show_int i = (if i < 0 then CHR ''-'' # js_show_nat (nat (- i)) else js_show_nat (nat i))"

definition MAX_SAFE_INTEGER :: nat where
  "MAX_SAFE_INTEGER = 9007199254740991"

subsection \<open>Numbers\<close>

text \<open>
  A Number is a finite value, \<open>NaN\<close> or an infinity; the two zeros are not told apart.
  A finite value stands for the double with that value. \<open>Math.min\<close>, \<open>Math.max\<close> and
  \<open>Math.round\<close> are exact on doubles and are defined here; \<open>Math.round\<close> gives the
  nearest integer, a tie going towards plus infinity.
\<close>

datatype number = Num real | NaN | PosInfinity | NegInfinity

fun js_Math_min :: "number \<Rightarrow> number \<Rightarrow> number" where
  "js_Math_min NaN b = NaN"
| "js_Math_min a NaN = NaN"
| "js_Math_min NegInfinity b = NegInfinity"
| "js_Math_min a NegInfinity = NegInfinity"
| "js_Math_min PosInfinity b = b"
| "js_Math_min a PosInfinity = a"
| "js_Math_min (Num x) (Num y) = Num (min x y)"

fun js_Math_max :: "number \<Rightarrow> number \<Rightarrow> number" where
  "js_Math_max NaN b = NaN"
| "js_Math_max a NaN = NaN"
| "js_Math_max PosInfinity b = PosInfinity"
| "js_Math_max a PosInfinity = PosInfinity"
| "js_Math_max NegInfinity b = b"
| "js_Math_max a NegInfinity = a"
| "js_Math_max (Num x) (Num y) = Num (max x y)"

fun js_Math_round :: "number \<Rightarrow> number" where
  "js_Math_round (Num x) = Num (of_int \<lfloor>x + 1 / 2\<rfloor>)"
| "js_Math_round n = n"

text \<open>
  What the code takes from the JavaScript runtime and the model does not define: the
  arithmetic of doubles, which rounds its results (\<open>a * b\<close>, \<open>a + b\<close>, \<open>a - b\<close> and
  \<open>Math.pow\<close>), the conversion of a Number to a string in a template literal, and
  \<open>Math.random\<close>, which is an effect on the state of the world \<open>'s\<close>. Every property
  below holds for every runtime.
\<close>

record 's runtime =
  num_times :: "number \<Rightarrow> number \<Rightarrow> number"
  num_plus :: "number \<Rightarrow> number \<Rightarrow> number"
  num_minus :: "number \<Rightarrow> number \<Rightarrow> number"
  Math_pow :: "number \<Rightarrow> number \<Rightarrow> number"
  Number_toString :: "number \<Rightarrow> string"
  Math_random :: "'s \<Rightarrow> number \<times> 's"

subsection \<open>Thrown values\<close>

text \<open>
  Values that a \<open>catch\<close> clause can receive.
  \<^item> \<open>ErrorObj m\<close> is an instance of \<open>Error\<close> (or of a subclass) whose message is the
    string \<open>m\<close>.
  \<^item> \<open>RetryErrorObj m n e\<close> is an instance of the class \<open>RetryError\<close> of \<open>retry.ts\<close> with
    its message, \<open>attempts\<close> and \<open>lastError\<close>.
  \<^item> \<open>BadMessageError t\<close> is an instance of \<open>Error\<close> whose message is not a string, so
    that the evaluation of \<open>error.message.toLowerCase()\<close> throws; \<open>t\<close> is what it throws.
  \<^item> \<open>NonError v\<close> is a value that is not an instance of \<open>Error\<close>: a string, \<open>null\<close>,
    \<open>undefined\<close>, any other value for which \<open>String(value)\<close> returns (\<open>OtherValue s\<close>, with
    the string returned) or any other value for which \<open>String(value)\<close> throws
    (\<open>UnprintableValue t\<close>, with what it throws).
  A value is given by its contents: the identity of an object is not represented, and
  an object that is passed on unchanged is the same value.
\<close>

datatype thrown =
    ErrorObj string
  | RetryErrorObj string number thrown
  | BadMessageError thrown
  | NonError non_error
and non_error =
    StringValue string
  | NullValue
  | UndefinedValue
  | OtherValue string
  | UnprintableValue thrown

fun instanceof_Error :: "thrown \<Rightarrow> bool" where
  "instanceof_Error (ErrorObj m) = True"
| "instanceof_Error (RetryErrorObj m n e) = True"
| "instanceof_Error (BadMessageError t) = True"
| "instanceof_Error (NonError v) = False"

text \<open>
  \<open>error.message\<close> where it is a string; the code reads it only from an instance of
  \<open>Error\<close>, and the model only from one whose message is a string.
\<close>

fun error_message :: "thrown \<Rightarrow> string" where
  "error_message (ErrorObj m) = m"
| "error_message (RetryErrorObj m n e) = m"
| "error_message (BadMessageError t) = []"
| "error_message (NonError v) = []"

text \<open>\<open>String(value)\<close>: the string, or what the conversion throws.\<close>

fun js_String :: "non_error \<Rightarrow> thrown + string" where
  "js_String (StringValue s) = Inr s"
| "js_String NullValue = Inr ''null''"
| "js_String UndefinedValue = Inr ''undefined''"
| "js_String (OtherValue s) = Inr s"
| "js_String (UnprintableValue t) = Inl t"

section \<open>retry.ts\<close>

subsection \<open>Options and defaults\<close>

text \<open>
  \<open>RetryOptions\<close>: every field is optional (\<open>None\<close> is \<open>undefined\<close>). \<open>maxRetries\<close> is a
  finite Number, an integer or not, negative or not; \<open>NaN\<close> and the infinities, with
  which the loop may never end, are left out. The delays and the backoff factor are
  Numbers. A status is an HTTP status code, a natural number. The callback \<open>onRetry\<close>
  has the type \<open>(attempt, error, delay) => void\<close>: it is modelled as an effect on the
  state of the world that returns normally; a callback that throws is left out.
\<close>

record 's RetryOptions =
  maxRetries :: "real option"
  initialDelay :: "number option"
  maxDelay :: "number option"
  backoffFactor :: "number option"
  jitter :: "bool option"
  retryableStatuses :: "nat list option"
  onRetry :: "(nat \<Rightarrow> thrown \<Rightarrow> number \<Rightarrow> 's \<Rightarrow> 's) option"

definition DEFAULT_maxRetries :: real where "DEFAULT_maxRetries = 3"
definition DEFAULT_initialDelay :: number where "DEFAULT_initialDelay = Num 1000"
definition DEFAULT_maxDelay :: number where "DEFAULT_maxDelay = Num 30000"
definition DEFAULT_backoffFactor :: number where "DEFAULT_backoffFactor = Num 2"
definition DEFAULT_jitter :: bool where "DEFAULT_jitter = True"
definition DEFAULT_retryableStatuses :: "nat list" where
  "DEFAULT_retryableStatuses = [429, 500, 502, 503, 504]"

text \<open>A destructuring default \<open>x = d\<close>: the default replaces \<open>undefined\<close> only.\<close>

fun or_default :: "'a option \<Rightarrow> 'a \<Rightarrow> 'a" where
  "or_default None d = d"
| "or_default (Some v) d = v"

subsection \<open>isRetryableError\<close>

definition transient_markers :: "string list" where
  "transient_markers =
     [''timeout'', ''econnreset'', ''econnrefused'', ''network'',
      ''socket hang up'', ''rate limit'', ''too many requests'']"

text \<open>The \<open>for\<close> loop over the statuses, returning at the first match.\<close>

fun status_loop :: "string \<Rightarrow> nat list \<Rightarrow> bool" where
  "status_loop message [] = False"
| "status_loop message (status # rest) =
     (if js_includes message (''('' @ js_show_nat status @ '')'')
         \<or> js_includes message (''status '' @ js_show_nat status)
      then True else status_loop message rest)"

text \<open>\<open>error.message.toLowerCase()\<close>: the string in lower case, or what the call throws.\<close>

fun message_toLowerCase :: "thrown \<Rightarrow> thrown + string" where
  "message_toLowerCase (BadMessageError t) = Inl t"
| "message_toLowerCase e = Inr (js_toLowerCase (error_message e))"

text \<open>
  \<open>isRetryableError\<close> returns a boolean (\<open>Inr\<close>), or throws (\<open>Inl\<close>) when the message of
  the error is not a string.
\<close>

definition isRetryableError :: "thrown \<Rightarrow> nat list option \<Rightarrow> thrown + bool" where
  "isRetryableError error statuses =
     (let retryable = or_default statuses DEFAULT_retryableStatuses
      in if instanceof_Error error then
           (case message_toLowerCase error of
              Inl t \<Rightarrow> Inl t
            | Inr message \<Rightarrow>
                if status_loop message retryable then Inr True
                else if js_includes message ''timeout''
                     \<or> js_includes message ''econnreset''
                     \<or> js_includes message ''econnrefused''
                     \<or> js_includes message ''network''
                     \<or> js_includes message ''socket hang up''
                     \<or> js_includes message ''rate limit''
                     \<or> js_includes message ''too many requests''
                    then Inr True else Inr False)
         else Inr False)"

text \<open>
  The classification in the words of the specification: the error is an \<open>Error\<close> with
  a string for its message, and the message contains a pattern up to the case of
  letters when some contiguous part of it equals the pattern after both are put in
  lower case.
\<close>

definition contains_ci :: "string \<Rightarrow> string \<Rightarrow> bool" where
  "contains_ci msg pat \<longleftrightarrow>
     (\<exists>pre mid post. msg = pre @ mid @ post \<and> js_toLowerCase mid = js_toLowerCase pat)"

fun has_string_message :: "thrown \<Rightarrow> bool" where
  "has_string_message (ErrorObj m) = True"
| "has_string_message (RetryErrorObj m n e) = True"
| "has_string_message (BadMessageError t) = False"
| "has_string_message (NonError v) = False"

definition retryable_spec :: "thrown \<Rightarrow> nat list \<Rightarrow> bool" where
  "retryable_spec error statuses \<longleftrightarrow>
     has_string_message error \<and>
     ((\<exists>N \<in> set statuses.
          contains_ci (error_message error) (''('' @ js_show_nat N @ '')'')
        \<or> contains_ci (error_message error) (''status '' @ js_show_nat N))
      \<or> (\<exists>marker \<in> set transient_markers. contains_ci (error_message error) marker))"

subsection \<open>calculateDelay\<close>

text \<open>
  The products, the power, the sum and the difference are those of the runtime, which
  rounds them; \<open>Math.min\<close>, \<open>Math.max\<close> and \<open>Math.round\<close> are exact. The attempt is any
  Number. Without jitter no random number is drawn.
\<close>

definition calculateDelay ::
  "'s runtime \<Rightarrow> number \<Rightarrow> 's RetryOptions \<Rightarrow> 's \<Rightarrow> number \<times> 's" where
  "calculateDelay rt attempt options s =
     (let initialDelay' = or_default (initialDelay options) DEFAULT_initialDelay;
          maxDelay' = or_default (maxDelay options) DEFAULT_maxDelay;
          backoffFactor' = or_default (backoffFactor options) DEFAULT_backoffFactor;
          jitter' = or_default (jitter options) DEFAULT_jitter;
          baseDelay = num_times rt initialDelay' (Math_pow rt backoffFactor' attempt);
          cappedDelay = js_Math_min baseDelay maxDelay'
      in if jitter' then
           (let jitterRange = num_times rt cappedDelay (Num (1 / 4))
            in (case Math_random rt s of
                  (r, s') \<Rightarrow>
                    (let randomJitter =
                           num_times rt (num_times rt (num_minus rt r (Num (1 / 2))) (Num 2))
                             jitterRange
                     in (js_Math_max (Num 0)
                           (js_Math_round (num_plus rt cappedDelay randomJitter)), s'))))
         else (js_Math_round cappedDelay, s))"

subsection \<open>withRetry\<close>

text \<open>
  An operation is an effect on the state of the world that returns a value (\<open>Inr\<close>) or
  throws (\<open>Inl\<close>). A run of \<open>withRetry\<close> records how it ended, the number of
  invocations of the operation, the values caught in the order they were thrown, the
  delays slept, and the final state. It ends with the return of a value, with a throw
  from inside the \<open>for\<close> loop (the statement \<open>throw lastError\<close>, or an exception of
  \<open>String(error)\<close> or of \<open>isRetryableError\<close> in the \<open>catch\<close> block), or with the throw of
  the \<open>RetryError\<close> after the loop.
\<close>

type_synonym ('a, 's) operation = "'s \<Rightarrow> (thrown + 'a) \<times> 's"

datatype 'a retry_exit =
    Returned 'a
  | ThrownInLoop thrown
  | ThrownAfterLoop thrown

record ('a, 's) retry_run =
  exit :: "'a retry_exit"
  calls :: nat
  caught :: "thrown list"
  delays :: "number list"
  final :: 's

text \<open>
  \<open>error instanceof Error ? error : new Error(String(error))\<close>: the value of the
  expression, or what \<open>String(error)\<close> throws.
\<close>

fun to_Error :: "thrown \<Rightarrow> thrown + thrown" where
  "to_Error (NonError v) = (case js_String v of Inl t \<Rightarrow> Inl t | Inr s \<Rightarrow> Inr (ErrorObj s))"
| "to_Error (ErrorObj m) = Inr (ErrorObj m)"
| "to_Error (RetryErrorObj m n e) = Inr (RetryErrorObj m n e)"
| "to_Error (BadMessageError t) = Inr (BadMessageError t)"

definition delay_options :: "number \<Rightarrow> number \<Rightarrow> number \<Rightarrow> bool \<Rightarrow> 's RetryOptions" where
  "delay_options i m b j =
     \<lparr>maxRetries = None, initialDelay = Some i, maxDelay = Some m, backoffFactor = Some b,
      jitter = Some j, retryableStatuses = None, onRetry = None\<rparr>"

text \<open>
  \<open>!isLastAttempt && isRetryableError(error, retryableStatuses)\<close>: the classifier is
  not called on the last attempt.
\<close>

definition shouldRetry :: "bool \<Rightarrow> thrown \<Rightarrow> nat list \<Rightarrow> thrown + bool" where
  "shouldRetry isLastAttempt error statuses =
     (if isLastAttempt then Inr False else isRetryableError error (Some statuses))"

text \<open>
  What the \<open>catch\<close> block throws before any delay, if it throws: what \<open>String(error)\<close>
  or \<open>isRetryableError\<close> throws, or \<open>lastError\<close> when the attempt is not retried; \<open>None\<close>
  when the attempt is retried. The loop below does not use this function; the
  properties of the loop are stated with it.
\<close>

definition catch_throws :: "bool \<Rightarrow> thrown \<Rightarrow> nat list \<Rightarrow> thrown option" where
  "catch_throws isLastAttempt error statuses =
     (case to_Error error of
        Inl t \<Rightarrow> Some t
      | Inr lastError \<Rightarrow>
          (case shouldRetry isLastAttempt error statuses of
             Inl t \<Rightarrow> Some t
           | Inr retry \<Rightarrow> if retry then None else Some lastError))"

text \<open>
  The \<open>for\<close> loop, from the given attempt on, and the throw after it. The counter is a
  natural number, as the counter of the code is below \<open>2^53\<close> attempts; the
  comparisons with \<open>maxRetries\<close> are those of Numbers.
\<close>

function retry_loop ::
  "'s runtime \<Rightarrow> ('a, 's) operation \<Rightarrow> 's RetryOptions \<Rightarrow> nat \<Rightarrow> thrown \<Rightarrow> 's
     \<Rightarrow> ('a, 's) retry_run" where
  "retry_loop rt operation options attempt lastError s =
     (let maxRetries' = or_default (maxRetries options) DEFAULT_maxRetries;
          initialDelay' = or_default (initialDelay options) DEFAULT_initialDelay;
          maxDelay' = or_default (maxDelay options) DEFAULT_maxDelay;
          backoffFactor' = or_default (backoffFactor options) DEFAULT_backoffFactor;
          jitter' = or_default (jitter options) DEFAULT_jitter;
          retryableStatuses' = or_default (retryableStatuses options) DEFAULT_retryableStatuses
      in if real attempt \<le> maxRetries' then
           (case operation s of
              (Inr v, s1) \<Rightarrow>
                \<lparr>exit = Returned v, calls = 1, caught = [], delays = [], final = s1\<rparr>
            | (Inl error, s1) \<Rightarrow>
                (case to_Error error of
                   Inl t \<Rightarrow>
                     \<lparr>exit = ThrownInLoop t, calls = 1, caught = [error], delays = [],
                      final = s1\<rparr>
                 | Inr lastError' \<Rightarrow>
                     (case shouldRetry (real attempt = maxRetries') error retryableStatuses' of
                        Inl t \<Rightarrow>
                          \<lparr>exit = ThrownInLoop t, calls = 1, caught = [error], delays = [],
                           final = s1\<rparr>
                      | Inr retry \<Rightarrow>
                          if \<not> retry then
                            \<lparr>exit = ThrownInLoop lastError', calls = 1, caught = [error],
                             delays = [], final = s1\<rparr>
                          else
                            (case calculateDelay rt (Num (real attempt))
                                    (delay_options initialDelay' maxDelay' backoffFactor' jitter')
                                    s1 of
                               (delay, s2) \<Rightarrow>
                                 (let s3 = (case onRetry options of
                                              None \<Rightarrow> s2
                                            | Some callback \<Rightarrow>
                                                callback (attempt + 1) lastError' delay s2);
                                      run = retry_loop rt operation options (attempt + 1)
                                              lastError' s3
                                  in run\<lparr>calls := calls run + 1,
                                          caught := error # caught run,
                                          delays := delay # delays run\<rparr>)))))
         else
           (let attempts = num_plus rt (Num maxRetries') (Num 1)
            in \<lparr>exit = ThrownAfterLoop
                          (RetryErrorObj (''Operation failed after '' @ Number_toString rt attempts
                                            @ '' attempts'')
                             attempts lastError),
                calls = 0, caught = [], delays = [], final = s\<rparr>))"
  by pat_completeness auto
termination
  by (relation "measure (\<lambda>(rt, operation, options, attempt, lastError, s).
        nat (\<lfloor>or_default (maxRetries options) DEFAULT_maxRetries\<rfloor> + 1 - int attempt))")
    (auto simp: shouldRetry_def split: if_splits, linarith)

declare retry_loop.simps [simp del]

definition withRetry ::
  "'s runtime \<Rightarrow> ('a, 's) operation \<Rightarrow> 's RetryOptions \<Rightarrow> 's \<Rightarrow> ('a, 's) retry_run" where
  "withRetry rt operation options s =
     retry_loop rt operation options 0 (ErrorObj ''Unknown error'') s"

text \<open>What the caller of \<open>withRetry\<close> receives: the value, or the thrown object.\<close>

fun outcome :: "'a retry_exit \<Rightarrow> thrown + 'a" where
  "outcome (Returned v) = Inr v"
| "outcome (ThrownInLoop e) = Inl e"
| "outcome (ThrownAfterLoop e) = Inl e"

subsection \<open>Concrete runs\<close>

text \<open>
  A runtime for concrete runs. Its arithmetic is the exact one on finite Numbers and
  gives \<open>NaN\<close> elsewhere, it writes an integer in decimal digits and a half-integer
  with \<open>.5\<close>, and its \<open>Math.random\<close> always draws one half. On the Numbers of the
  concrete runs below, which are small integers and halves, doubles compute the same.
\<close>

fun exact_times :: "number \<Rightarrow> number \<Rightarrow> number" where
  "exact_times (Num x) (Num y) = Num (x * y)"
| "exact_times a b = NaN"

fun exact_plus :: "number \<Rightarrow> number \<Rightarrow> number" where
  "exact_plus (Num x) (Num y) = Num (x + y)"
| "exact_plus a b = NaN"

fun exact_minus :: "number \<Rightarrow> number \<Rightarrow> number" where
  "exact_minus (Num x) (Num y) = Num (x - y)"
| "exact_minus a b = NaN"

fun exact_pow :: "number \<Rightarrow> number \<Rightarrow> number" where
  "exact_pow (Num x) (Num y) = (if 0 \<le> y \<and> y = real_of_int \<lfloor>y\<rfloor> then Num (x ^ nat \<lfloor>y\<rfloor>) else NaN)"
| "exact_pow a b = NaN"

fun small_toString :: "number \<Rightarrow> string" where
  "small_toString (Num x) =
     (if x = real_of_int \<lfloor>x\<rfloor> then js_show_int \<lfloor>x\<rfloor>
      else if 0 < x \<and> 2 * x = real_of_int \<lfloor>2 * x\<rfloor> then js_show_int \<lfloor>x\<rfloor> @ ''.5''
      else ''NaN'')"
| "small_toString n = ''NaN''"

definition half_random :: "'s \<Rightarrow> number \<times> 's" where
  "half_random s = (Num (1 / 2), s)"

definition sample_runtime :: "'s runtime" where
  "sample_runtime =
     \<lparr>num_times = exact_times, num_plus = exact_plus, num_minus = exact_minus,
      Math_pow = exact_pow, Number_toString = small_toString, Math_random = half_random\<rparr>"

text \<open>
  The empty options object \<open>{}\<close>, and operations over a world that counts the
  invocations: one that always throws the same value, and one that throws a value
  while the count is below a bound and returns the count afterwards.
\<close>

definition empty_options :: "'s RetryOptions" where
  "empty_options =
     \<lparr>maxRetries = None, initialDelay = None, maxDelay = None, backoffFactor = None,
      jitter = None, retryableStatuses = None, onRetry = None\<rparr>"

definition max_retries_options :: "real \<Rightarrow> 's RetryOptions" where
  "max_retries_options n = empty_options\<lparr>maxRetries := Some n\<rparr>"

definition always_throws :: "thrown \<Rightarrow> (nat, nat) operation" where
  "always_throws e n = (Inl e, Suc n)"

definition throws_until :: "nat \<Rightarrow> thrown \<Rightarrow> (nat, nat) operation" where
  "throws_until k e n = (if n < k then (Inl e, Suc n) else (Inr n, Suc n))"

section \<open>client.ts\<close>

subsection \<open>JSON values\<close>

text \<open>
  The values that \<open>JSON.parse\<close> and \<open>response.json()\<close> produce, with \<open>undefined\<close> for the
  result of reading an absent property. An object is the list of its own properties;
  a name is looked up from the front of the list.
\<close>

datatype jsval =
    JUndefined
  | JNull
  | JBool bool
  | JNumber real
  | JString string
  | JArray "jsval list"
  | JObject "(string \<times> jsval) list"

text \<open>Truthiness, as \<open>!!v\<close>, \<open>v || w\<close> and \<open>if (v)\<close> test it.\<close>

fun js_truthy :: "jsval \<Rightarrow> bool" where
  "js_truthy JUndefined = False"
| "js_truthy JNull = False"
| "js_truthy (JBool b) = b"
| "js_truthy (JNumber n) = (n \<noteq> 0)"
| "js_truthy (JString s) = (s \<noteq> [])"
| "js_truthy (JArray vs) = True"
| "js_truthy (JObject kvs) = True"

definition cannot_read :: "string \<Rightarrow> string \<Rightarrow> thrown" where
  "cannot_read base k =
     ErrorObj (''Cannot read properties of '' @ base @ '' (reading '' @ [CHR 0x27] @ k
                 @ [CHR 0x27] @ '')'')"

text \<open>
  \<open>v.k\<close> for the property names that \<open>client.ts\<close> reads (\<open>done\<close>, \<open>models\<close>, \<open>result\<close>,
  \<open>message\<close>, \<open>content\<close>): a \<open>TypeError\<close> on \<open>null\<close> and \<open>undefined\<close>, the own property of an
  object, and \<open>undefined\<close> on every other value, whose prototypes define none of these
  names.
\<close>

fun js_get :: "jsval \<Rightarrow> string \<Rightarrow> thrown + jsval" where
  "js_get JUndefined k = Inl (cannot_read ''undefined'' k)"
| "js_get JNull k = Inl (cannot_read ''null'' k)"
| "js_get (JObject kvs) k = Inr (case map_of kvs k of None \<Rightarrow> JUndefined | Some v \<Rightarrow> v)"
| "js_get v k = Inr JUndefined"

subsection \<open>The stream decoder of chatStream\<close>

definition js_whitespace :: "char \<Rightarrow> bool" where
  "js_whitespace c = ((of_char c :: nat) \<in> {9, 10, 11, 12, 13, 32, 160})"

definition js_trim :: "string \<Rightarrow> string" where
  "js_trim s = rev (dropWhile js_whitespace (rev (dropWhile js_whitespace s)))"

definition newline :: char where
  "newline = CHR 0x0A"

text \<open>
  \<open>buffer.split('\n')\<close>: the pieces between the newlines, at least one piece (the
  split of the rest is never empty, so the first case of the \<open>case\<close> does not occur).
\<close>

fun split_newline :: "string \<Rightarrow> string list" where
  "split_newline [] = [[]]"
| "split_newline (c # cs) =
     (if c = newline then [] # split_newline cs
      else (case split_newline cs of
              [] \<Rightarrow> [[c]]
            | piece # pieces \<Rightarrow> (c # piece) # pieces))"

text \<open>
  \<open>chunk.done\<close> as the \<open>if\<close> tests it inside the \<open>try\<close> block: a \<open>TypeError\<close> raised by the
  read (the chunk is \<open>null\<close>) is caught by the \<open>catch\<close> and the loop goes on.
\<close>

definition chunk_done :: "jsval \<Rightarrow> bool" where
  "chunk_done chunk = (case js_get chunk ''done'' of Inl e \<Rightarrow> False | Inr d \<Rightarrow> js_truthy d)"

text \<open>
  The \<open>for\<close> loop over the complete lines. \<open>parse\<close> is \<open>JSON.parse\<close>, \<open>None\<close> when it
  throws. The result is the chunks yielded, in order, and whether the generator
  returned at a chunk with a true \<open>done\<close>.
\<close>

fun process_lines :: "(string \<Rightarrow> jsval option) \<Rightarrow> string list \<Rightarrow> jsval list \<times> bool" where
  "process_lines parse [] = ([], False)"
| "process_lines parse (line # rest) =
     (if js_trim line = [] then process_lines parse rest
      else (case parse line of
              None \<Rightarrow> process_lines parse rest
            | Some chunk \<Rightarrow>
                if chunk_done chunk then ([chunk], True)
                else (case process_lines parse rest of
                        (yielded, returned) \<Rightarrow> (chunk # yielded, returned))))"

text \<open>The code after the \<open>while\<close> loop: one attempt on what is left in the buffer.\<close>

definition process_remaining :: "(string \<Rightarrow> jsval option) \<Rightarrow> string \<Rightarrow> jsval list" where
  "process_remaining parse buffer =
     (if js_trim buffer \<noteq> [] then (case parse buffer of None \<Rightarrow> [] | Some chunk \<Rightarrow> [chunk])
      else [])"

text \<open>
  The \<open>while (true)\<close> loop. The transport delivers the given pieces of text, one for each
  \<open>reader.read()\<close>, and then closes; a piece is what the streaming \<open>TextDecoder\<close> returns
  for the bytes of one read. The result is the sequence of chunks that the generator
  yields.
\<close>

fun read_loop :: "(string \<Rightarrow> jsval option) \<Rightarrow> string \<Rightarrow> string list \<Rightarrow> jsval list" where
  "read_loop parse buffer [] = process_remaining parse buffer"
| "read_loop parse buffer (v # reads) =
     (let buffer1 = buffer @ v;
          lines = split_newline buffer1;
          buffer2 = last lines;
          lines' = butlast lines
      in (case process_lines parse lines' of
            (yielded, returned) \<Rightarrow>
              if returned then yielded else yielded @ read_loop parse buffer2 reads))"

definition chatStream_decode :: "(string \<Rightarrow> jsval option) \<Rightarrow> string list \<Rightarrow> jsval list" where
  "chatStream_decode parse reads = read_loop parse [] reads"

text \<open>
  The decoding in the words of the specification. Each complete non-blank line is
  parsed on its own and a line that does not parse gives nothing; the sequence ends
  with the first chunk whose \<open>done\<close> is true; when there is none, the remaining partial
  line is tried as one more chunk.
\<close>

definition line_chunk :: "(string \<Rightarrow> jsval option) \<Rightarrow> string \<Rightarrow> jsval option" where
  "line_chunk parse line = (if js_trim line = [] then None else parse line)"

definition line_chunks :: "(string \<Rightarrow> jsval option) \<Rightarrow> string list \<Rightarrow> jsval list" where
  "line_chunks parse lines = List.map_filter (line_chunk parse) lines"

definition until_done :: "jsval list \<Rightarrow> jsval list" where
  "until_done chunks =
     takeWhile (\<lambda>c. \<not> chunk_done c) chunks @ take 1 (dropWhile (\<lambda>c. \<not> chunk_done c) chunks)"

definition decode_spec :: "(string \<Rightarrow> jsval option) \<Rightarrow> string \<Rightarrow> jsval list" where
  "decode_spec parse text =
     (let pieces = split_newline text;
          chunks = line_chunks parse (butlast pieces)
      in if list_ex chunk_done chunks then until_done chunks
         else chunks @ line_chunks parse [last pieces])"

text \<open>
  A small \<open>JSON.parse\<close> for concrete runs: it knows three lines and throws on every
  other text.
\<close>

definition done_line :: string where
  \<open>done_line = ''{"done":true}''\<close>

definition done_chunk :: jsval where
  "done_chunk = JObject [(''done'', JBool True)]"

definition text_line :: "string \<Rightarrow> string" where
  \<open>text_line t = ''{"text":"'' @ t @ ''"}''\<close>

definition text_chunk :: "string \<Rightarrow> jsval" where
  "text_chunk t = JObject [(''text'', JString t)]"

definition sample_parse :: "string \<Rightarrow> jsval option" where
  "sample_parse line =
     (if line = done_line then Some done_chunk
      else if line = text_line ''Hel'' then Some (text_chunk ''Hel'')
      else if line = text_line ''lo'' then Some (text_chunk ''lo'')
      else None)"

subsection \<open>Configuration and construction\<close>

text \<open>
  Modelled from the spec: the type \<open>PuterConfig\<close> of \<open>types.ts\<close>, which is not among the
  sources. The fields are those that \<open>client.ts\<close> reads; each is optional.
\<close>

record PuterConfig =
  api_base_url :: "string option"
  api_timeout_ms :: "real option"
  max_retries :: "real option"
  retry_delay_ms :: "number option"
  debug :: "bool option"

definition DEFAULT_API_URL :: string where
  "DEFAULT_API_URL = ''https://api.puter.com''"

definition DEFAULT_TIMEOUT :: real where
  "DEFAULT_TIMEOUT = 120000"

definition DEFAULT_MAX_RETRIES :: real where
  "DEFAULT_MAX_RETRIES = 3"

definition DEFAULT_RETRY_DELAY :: number where
  "DEFAULT_RETRY_DELAY = Num 1000"

text \<open>
  The fields of an instance of \<open>PuterClient\<close>; \<open>this_debug\<close> is its field \<open>debug\<close>.
\<close>

record PuterClient =
  authToken :: string
  config :: PuterConfig
  this_debug :: bool

text \<open>\<open>a ?? d\<close>: the default replaces \<open>null\<close> and \<open>undefined\<close> only.\<close>

definition PuterClient_new :: "string \<Rightarrow> PuterConfig \<Rightarrow> PuterClient" where
  "PuterClient_new token cfg =
     \<lparr>authToken = token, config = cfg, this_debug = or_default (debug cfg) False\<rparr>"

text \<open>
  The constructor stores the config object it is given, not a copy of it, so an
  assignment to a field of that object after construction changes what \<open>this.config\<close>
  holds. \<open>config_changed cfg' c\<close> is the client \<open>c\<close> after such assignments, \<open>cfg'\<close> being the
  contents of the object after them.
\<close>

definition config_changed :: "PuterConfig \<Rightarrow> PuterClient \<Rightarrow> PuterClient" where
  "config_changed cfg' c = c\<lparr>config := cfg'\<rparr>"

definition setAuthToken :: "string \<Rightarrow> PuterClient \<Rightarrow> PuterClient" where
  "setAuthToken token c = c\<lparr>authToken := token\<rparr>"

text \<open>\<open>a || d\<close>: the default replaces every falsy value, here also the empty string and 0.\<close>

definition apiUrl :: "PuterClient \<Rightarrow> string" where
  "apiUrl c =
     (case api_base_url (config c) of
        None \<Rightarrow> DEFAULT_API_URL
      | Some u \<Rightarrow> if u = [] then DEFAULT_API_URL else u)"

definition timeout :: "PuterClient \<Rightarrow> real" where
  "timeout c =
     (case api_timeout_ms (config c) of
        None \<Rightarrow> DEFAULT_TIMEOUT
      | Some t \<Rightarrow> if t = 0 then DEFAULT_TIMEOUT else t)"

subsection \<open>The platform\<close>

text \<open>
  Modelled from the spec: the types \<open>PuterChatMessage\<close> and \<open>PuterChatOptions\<close> of
  \<open>types.ts\<close>, which is not among the sources, with the fields that \<open>client.ts\<close> reads.
\<close>

record PuterChatMessage =
  role :: string
  content :: string

record PuterChatOptions =
  model :: "string option"
  max_tokens :: "real option"
  temperature :: "real option"
  tools :: "jsval option"

text \<open>The \<open>args\<close> of a call and the body that \<open>JSON.stringify\<close> serialises.\<close>

record chat_args =
  args_messages :: "PuterChatMessage list"
  args_model :: string
  args_stream :: bool
  args_max_tokens :: "real option"
  args_temperature :: "real option"
  args_tools :: "jsval option"

record drivers_call =
  interface :: string
  service :: string
  call_method :: string
  call_args :: chat_args
  auth_token :: string

text \<open>
  A request as \<open>fetch\<close> receives it; \<open>abort_after\<close> is the delay of the timer that aborts
  the signal passed with the request, when there is one.
\<close>

record request =
  url :: string
  http_method :: string
  headers :: "(string \<times> string) list"
  body :: "drivers_call option"
  abort_after :: "real option"

text \<open>
  A response: \<open>status\<close> is an unsigned short, which a template literal writes in
  decimal digits; \<open>text_result\<close> and \<open>json_result\<close> are what \<open>await response.text()\<close>
  and \<open>await response.json()\<close> give, a value or a thrown error.
\<close>

record response =
  ok :: bool
  status :: nat
  text_result :: "thrown + string"
  json_result :: "thrown + jsval"

text \<open>
  The effects that the client has on the world \<open>'s\<close>, and the runtime that \<open>withRetry\<close>
  runs on.
\<close>

record 's platform =
  platform_fetch :: "request \<Rightarrow> 's \<Rightarrow> (thrown + response) \<times> 's"
  runtime :: "'s runtime"
  console_warn :: "string \<Rightarrow> 's \<Rightarrow> 's"

text \<open>
  The line that the \<open>onRetry\<close> callback of the client writes. The attempt is a counter
  of the loop, written in decimal digits; the error is one that \<open>isRetryableError\<close> has
  classified, so its message is a string.
\<close>

definition retry_warning :: "'s runtime \<Rightarrow> nat \<Rightarrow> thrown \<Rightarrow> number \<Rightarrow> string" where
  "retry_warning rt attempt error delay =
     ''[PuterClient] Retry '' @ js_show_nat attempt @ '': '' @ error_message error
       @ '' (waiting '' @ Number_toString rt delay @ ''ms)''"

definition retryOptions :: "'s platform \<Rightarrow> PuterClient \<Rightarrow> 's RetryOptions" where
  "retryOptions pf c =
     \<lparr>maxRetries = Some (or_default (max_retries (config c)) DEFAULT_MAX_RETRIES),
      initialDelay = Some (or_default (retry_delay_ms (config c)) DEFAULT_RETRY_DELAY),
      maxDelay = None, backoffFactor = None, jitter = None, retryableStatuses = None,
      onRetry = (if this_debug c
                 then Some (\<lambda>attempt error delay.
                              console_warn pf (retry_warning (runtime pf) attempt error delay))
                 else None)\<rparr>"

subsection \<open>makeRequest, chat and testConnection\<close>

definition makeRequest_operation ::
  "'s platform \<Rightarrow> PuterClient \<Rightarrow> string \<Rightarrow> chat_args \<Rightarrow> (jsval, 's) operation" where
  "makeRequest_operation pf c method args s =
     (case platform_fetch pf
             \<lparr>url = apiUrl c @ ''/drivers/call'', http_method = ''POST'',
              headers = [(''Content-Type'', ''application/json'')],
              body = Some \<lparr>interface = ''puter-chat-completion'', service = ''ai-chat'',
                           call_method = method, call_args = args,
                           auth_token = authToken c\<rparr>,
              abort_after = Some (timeout c)\<rparr> s of
        (Inl e, s1) \<Rightarrow> (Inl e, s1)
      | (Inr response, s1) \<Rightarrow>
          if \<not> ok response then
            (case text_result response of
               Inl e \<Rightarrow> (Inl e, s1)
             | Inr errorText \<Rightarrow>
                 (Inl (ErrorObj (''Puter API error ('' @ js_show_nat (status response) @ ''): ''
                                   @ errorText)), s1))
          else
            (case json_result response of
               Inl e \<Rightarrow> (Inl e, s1)
             | Inr data \<Rightarrow> (Inr data, s1)))"

definition makeRequest ::
  "'s platform \<Rightarrow> PuterClient \<Rightarrow> string \<Rightarrow> chat_args \<Rightarrow> 's \<Rightarrow> (jsval, 's) retry_run" where
  "makeRequest pf c method args s =
     withRetry (runtime pf) (makeRequest_operation pf c method args) (retryOptions pf c) s"

definition chat ::
  "'s platform \<Rightarrow> PuterClient \<Rightarrow> PuterChatMessage list \<Rightarrow> PuterChatOptions \<Rightarrow> 's
     \<Rightarrow> (thrown + jsval) \<times> 's" where
  "chat pf c messages options s =
     (let run = makeRequest pf c ''complete''
                  \<lparr>args_messages = messages,
                   args_model = (case model options of
                                   None \<Rightarrow> ''gpt-5-nano''
                                 | Some m \<Rightarrow> if m = [] then ''gpt-5-nano'' else m),
                   args_stream = False,
                   args_max_tokens = max_tokens options,
                   args_temperature = temperature options,
                   args_tools = tools options\<rparr> s
      in (case outcome (exit run) of
            Inl e \<Rightarrow> (Inl e, final run)
          | Inr response \<Rightarrow> (js_get response ''result'', final run)))"

definition probe_messages :: "PuterChatMessage list" where
  \<open>probe_messages = [\<lparr>role = ''user'', content = ''Say "OK" and nothing else.''\<rparr>]\<close>

definition probe_options :: PuterChatOptions where
  "probe_options =
     \<lparr>model = Some ''gpt-5-nano'', max_tokens = Some 10, temperature = None, tools = None\<rparr>"

text \<open>
  \<open>!!response.message?.content\<close>: reading \<open>message\<close> throws when \<open>response\<close> is \<open>null\<close> or
  \<open>undefined\<close>; the optional chaining gives \<open>undefined\<close> when \<open>message\<close> is.
\<close>

definition message_content_truthy :: "jsval \<Rightarrow> thrown + bool" where
  "message_content_truthy response =
     (case js_get response ''message'' of
        Inl e \<Rightarrow> Inl e
      | Inr message \<Rightarrow>
          if message = JUndefined \<or> message = JNull then Inr False
          else (case js_get message ''content'' of
                  Inl e \<Rightarrow> Inl e
                | Inr c \<Rightarrow> Inr (js_truthy c)))"

text \<open>The \<open>try\<close> block of \<open>testConnection\<close>, and the method with its \<open>catch\<close>.\<close>

definition testConnection_try :: "'s platform \<Rightarrow> PuterClient \<Rightarrow> 's \<Rightarrow> (thrown + bool) \<times> 's" where
  "testConnection_try pf c s =
     (case chat pf c probe_messages probe_options s of
        (Inl e, s1) \<Rightarrow> (Inl e, s1)
      | (Inr response, s1) \<Rightarrow> (message_content_truthy response, s1))"

definition testConnection :: "'s platform \<Rightarrow> PuterClient \<Rightarrow> 's \<Rightarrow> (thrown + bool) \<times> 's" where
  "testConnection pf c s =
     (case testConnection_try pf c s of
        (Inl e, s1) \<Rightarrow> (Inr False, s1)
      | (Inr b, s1) \<Rightarrow> (Inr b, s1))"

text \<open>
  The response carries non-empty assistant message content, in the words of the
  specification: it is an object whose \<open>message\<close> is an object whose \<open>content\<close> is truthy,
  which for a string means that it is not empty.
\<close>

definition carries_content :: "jsval \<Rightarrow> bool" where
  "carries_content response \<longleftrightarrow>
     (\<exists>fields message_fields c.
        response = JObject fields \<and> map_of fields ''message'' = Some (JObject message_fields)
        \<and> map_of message_fields ''content'' = Some c \<and> js_truthy c)"

subsection \<open>listModels\<close>

text \<open>
  The fields of a model, as the literals of \<open>getDefaultModels\<close> give them; \<open>model_id\<close> and
  \<open>model_name\<close> are the fields \<open>id\<close> and \<open>name\<close>.
\<close>

record PuterModelInfo =
  model_id :: string
  model_name :: string
  provider :: string
  context_window :: int
  max_output_tokens :: int
  supports_streaming :: bool
  supports_tools :: bool
  supports_vision :: bool

definition model_info ::
  "string \<Rightarrow> string \<Rightarrow> string \<Rightarrow> int \<Rightarrow> int \<Rightarrow> bool \<Rightarrow> bool \<Rightarrow> bool \<Rightarrow> PuterModelInfo" where
  "model_info i n p cw mo ss st sv =
     \<lparr>model_id = i, model_name = n, provider = p, context_window = cw,
      max_output_tokens = mo, supports_streaming = ss, supports_tools = st,
      supports_vision = sv\<rparr>"

definition getDefaultModels :: "PuterModelInfo list" where
  "getDefaultModels =
     [model_info ''claude-opus-4-5'' ''Claude Opus 4.5'' ''anthropic'' 200000 64000 True True True,
      model_info ''claude-sonnet-4-5'' ''Claude Sonnet 4.5'' ''anthropic'' 200000 64000 True True True,
      model_info ''claude-sonnet-4'' ''Claude Sonnet 4'' ''anthropic'' 200000 64000 True True True,
      model_info ''claude-haiku-4-5'' ''Claude Haiku 4.5'' ''anthropic'' 200000 64000 True True True,
      model_info ''gpt-5-nano'' ''GPT-5 Nano'' ''openai'' 128000 16384 True True True,
      model_info ''gpt-5.2'' ''GPT-5.2'' ''openai'' 128000 32768 True True True,
      model_info ''gpt-4o'' ''GPT-4o'' ''openai'' 128000 16384 True True True,
      model_info ''o3-mini'' ''o3-mini'' ''openai'' 128000 32768 True True False,
      model_info ''gemini-2.5-pro'' ''Gemini 2.5 Pro'' ''google'' 1000000 65536 True True True,
      model_info ''gemini-2.5-flash'' ''Gemini 2.5 Flash'' ''google'' 1000000 65536 True True True]"

text \<open>
  What \<open>listModels\<close> returns: the payload of the catalog endpoint as it is, or the
  default catalog.
\<close>

datatype models_result =
    FromApi jsval
  | DefaultCatalog "PuterModelInfo list"

definition listModels_operation :: "'s platform \<Rightarrow> PuterClient \<Rightarrow> (jsval, 's) operation" where
  "listModels_operation pf c s =
     (case platform_fetch pf
             \<lparr>url = apiUrl c @ ''/puterai/chat/models/details'', http_method = ''GET'',
              headers = [(''Authorization'', ''Bearer '' @ authToken c)],
              body = None, abort_after = None\<rparr> s of
        (Inl e, s1) \<Rightarrow> (Inl e, s1)
      | (Inr response, s1) \<Rightarrow>
          if \<not> ok response then
            (Inl (ErrorObj (''Failed to fetch models ('' @ js_show_nat (status response) @ '')'')),
             s1)
          else
            (case json_result response of
               Inl e \<Rightarrow> (Inl e, s1)
             | Inr data \<Rightarrow>
                 (case js_get data ''models'' of
                    Inl e \<Rightarrow> (Inl e, s1)
                  | Inr models \<Rightarrow>
                      (Inr (if js_truthy models then models
                            else if js_truthy data then data else JArray []), s1))))"

definition listModels ::
  "'s platform \<Rightarrow> PuterClient \<Rightarrow> 's \<Rightarrow> (thrown + models_result) \<times> 's" where
  "listModels pf c s =
     (let run = withRetry (runtime pf) (listModels_operation pf c) (retryOptions pf c) s
      in (case outcome (exit run) of
            Inr models \<Rightarrow> (Inr (FromApi models), final run)
          | Inl e \<Rightarrow>
              (Inr (DefaultCatalog getDefaultModels),
               if this_debug c
               then console_warn pf ''[PuterClient] Failed to fetch models, using defaults''
                      (final run)
               else final run)))"

subsection \<open>Concrete configurations and platforms\<close>

text \<open>
  The empty config \<open>{}\<close> and the config of the client tests; a platform whose world is
  the list of the lines written by \<open>console.warn\<close> and whose \<open>fetch\<close> always fails with
  the error of the client tests; a platform whose \<open>fetch\<close> always answers with a short
  assistant message.
\<close>

definition empty_config :: PuterConfig where
  "empty_config =
     \<lparr>api_base_url = None, api_timeout_ms = None, max_retries = None, retry_delay_ms = None,
      debug = None\<rparr>"

definition test_config :: "bool \<Rightarrow> PuterConfig" where
  "test_config d =
     \<lparr>api_base_url = None, api_timeout_ms = None, max_retries = Some 0, retry_delay_ms = None,
      debug = Some d\<rparr>"

definition moved_config :: PuterConfig where
  "moved_config =
     \<lparr>api_base_url = Some ''http://localhost:8080'', api_timeout_ms = Some 5000,
      max_retries = Some 1, retry_delay_ms = Some (Num 10), debug = None\<rparr>"

definition unauthorized_fetch :: "request \<Rightarrow> string list \<Rightarrow> (thrown + response) \<times> string list" where
  "unauthorized_fetch req console =
     (Inl (ErrorObj ''Puter API error (401): Unauthorized''), console)"

definition record_warning :: "string \<Rightarrow> string list \<Rightarrow> string list" where
  "record_warning line console = console @ [line]"

definition failing_platform :: "string list platform" where
  "failing_platform =
     \<lparr>platform_fetch = unauthorized_fetch, runtime = sample_runtime,
      console_warn = record_warning\<rparr>"

definition answer_payload :: "string \<Rightarrow> jsval" where
  "answer_payload t =
     JObject [(''result'',
        JObject [(''message'', JObject [(''role'', JString ''assistant''),
                                         (''content'', JString t)])])]"

definition answering_fetch ::
  "string \<Rightarrow> request \<Rightarrow> string list \<Rightarrow> (thrown + response) \<times> string list" where
  "answering_fetch t req console =
     (Inr \<lparr>ok = True, status = 200, text_result = Inr [],
           json_result = Inr (answer_payload t)\<rparr>, console)"

definition answering_platform :: "string \<Rightarrow> string list platform" where
  "answering_platform t =
     \<lparr>platform_fetch = answering_fetch t, runtime = sample_runtime,
      console_warn = record_warning\<rparr>"

section \<open>Properties of the string helpers\<close>

lemma js_startsWith_iff: "js_startsWith s pat \<longleftrightarrow> (\<exists>post. s = pat @ post)"
  by (induction s pat rule: js_startsWith.induct) auto

lemma js_includes_iff: "js_includes s pat \<longleftrightarrow> (\<exists>pre post. s = pre @ pat @ post)"
proof (induction s)
  case Nil
  then show ?case by auto
next
  case (Cons c cs)
  show ?case
  proof
    assume "js_includes (c # cs) pat"
    then consider "js_startsWith (c # cs) pat" | "js_includes cs pat" by auto
    then show "\<exists>pre post. c # cs = pre @ pat @ post"
    proof cases
      case 1
      then obtain post where "c # cs = pat @ post" by (auto simp: js_startsWith_iff)
      then have "c # cs = [] @ pat @ post" by simp
      then show ?thesis by blast
    next
      case 2
      then obtain pre post where "cs = pre @ pat @ post" using Cons.IH by auto
      then have "c # cs = (c # pre) @ pat @ post" by simp
      then show ?thesis by blast
    qed
  next
    assume "\<exists>pre post. c # cs = pre @ pat @ post"
    then obtain pre post where eq: "c # cs = pre @ pat @ post" by auto
    show "js_includes (c # cs) pat"
    proof (cases pre)
      case Nil
      with eq have "js_startsWith (c # cs) pat" by (auto simp: js_startsWith_iff)
      then show ?thesis by simp
    next
      case (Cons p pre')
      with eq have "cs = pre' @ pat @ post" by simp
      then have "js_includes cs pat" using Cons.IH by blast
      then show ?thesis by simp
    qed
  qed
qed

lemma of_char_digit: "d < 10 \<Longrightarrow> (of_char (digit_char d) :: nat) = 48 + d"
  by (simp add: digit_char_def)

lemma lower_digit: "d < 10 \<Longrightarrow> js_toLowerCase_char (digit_char d) = digit_char d"
  by (simp add: js_toLowerCase_char_def of_char_digit Let_def)

lemma lower_show_nat: "js_toLowerCase (js_show_nat n) = js_show_nat n"
proof (induction n rule: js_show_nat.induct)
  case (1 n)
  show ?case
  proof (cases "n < 10")
    case True
    then show ?thesis by (simp add: js_show_nat.simps[of n] js_toLowerCase_def lower_digit)
  next
    case False
    then have "js_toLowerCase (js_show_nat (n div 10)) = js_show_nat (n div 10)" using 1 by simp
    with False show ?thesis
      by (simp add: js_show_nat.simps[of n] js_toLowerCase_def lower_digit)
  qed
qed

lemma lower_append: "js_toLowerCase (a @ b) = js_toLowerCase a @ js_toLowerCase b"
  by (simp add: js_toLowerCase_def)

lemma includes_lower_iff:
  "js_includes (js_toLowerCase msg) (js_toLowerCase pat) \<longleftrightarrow> contains_ci msg pat"
proof
  assume "js_includes (js_toLowerCase msg) (js_toLowerCase pat)"
  then obtain pre post where "map js_toLowerCase_char msg = pre @ map js_toLowerCase_char pat @ post"
    unfolding js_includes_iff js_toLowerCase_def by blast
  then obtain a r where m1: "msg = a @ r"
    and m2: "map js_toLowerCase_char r = map js_toLowerCase_char pat @ post"
    by (metis map_eq_append_conv)
  from m2 obtain b c where "r = b @ c" and "map js_toLowerCase_char b = map js_toLowerCase_char pat"
    by (metis map_eq_append_conv)
  with m1 show "contains_ci msg pat"
    unfolding contains_ci_def js_toLowerCase_def by blast
next
  assume "contains_ci msg pat"
  then obtain pre mid post where "msg = pre @ mid @ post"
    and "js_toLowerCase mid = js_toLowerCase pat"
    unfolding contains_ci_def by blast
  then have "js_toLowerCase msg = js_toLowerCase pre @ js_toLowerCase pat @ js_toLowerCase post"
    by (simp add: js_toLowerCase_def)
  then show "js_includes (js_toLowerCase msg) (js_toLowerCase pat)"
    unfolding js_includes_iff by blast
qed

lemma status_loop_iff:
  "status_loop message statuses \<longleftrightarrow>
     (\<exists>N \<in> set statuses. js_includes message (''('' @ js_show_nat N @ '')'')
        \<or> js_includes message (''status '' @ js_show_nat N))"
  by (induction statuses) auto

lemma lower_paren_pattern:
  "js_toLowerCase (''('' @ js_show_nat N @ '')'') = ''('' @ js_show_nat N @ '')''"
proof -
  have "js_toLowerCase ''('' = ''(''" and "js_toLowerCase '')'' = '')''" by code_simp+
  then show ?thesis by (simp only: lower_append lower_show_nat)
qed

lemma lower_status_pattern:
  "js_toLowerCase (''status '' @ js_show_nat N) = ''status '' @ js_show_nat N"
proof -
  have "js_toLowerCase ''status '' = ''status ''" by code_simp
  then show ?thesis by (simp only: lower_append lower_show_nat)
qed

lemma lower_markers: "\<forall>marker \<in> set transient_markers. js_toLowerCase marker = marker"
  by code_simp

lemma includes_lower_pattern:
  "js_toLowerCase pat = pat \<Longrightarrow> js_includes (js_toLowerCase msg) pat \<longleftrightarrow> contains_ci msg pat"
  using includes_lower_iff [of msg pat] by simp

lemma status_loop_spec:
  "status_loop (js_toLowerCase msg) statuses \<longleftrightarrow>
     (\<exists>N \<in> set statuses. contains_ci msg (''('' @ js_show_nat N @ '')'')
        \<or> contains_ci msg (''status '' @ js_show_nat N))"
  by (simp only: status_loop_iff includes_lower_pattern [OF lower_paren_pattern]
      includes_lower_pattern [OF lower_status_pattern])

lemma markers_spec:
  "(js_includes (js_toLowerCase msg) ''timeout''
     \<or> js_includes (js_toLowerCase msg) ''econnreset''
     \<or> js_includes (js_toLowerCase msg) ''econnrefused''
     \<or> js_includes (js_toLowerCase msg) ''network''
     \<or> js_includes (js_toLowerCase msg) ''socket hang up''
     \<or> js_includes (js_toLowerCase msg) ''rate limit''
     \<or> js_includes (js_toLowerCase msg) ''too many requests'')
   \<longleftrightarrow> (\<exists>marker \<in> set transient_markers. contains_ci msg marker)"
proof -
  have low: "js_toLowerCase ''timeout'' = ''timeout''"
    "js_toLowerCase ''econnreset'' = ''econnreset''"
    "js_toLowerCase ''econnrefused'' = ''econnrefused''"
    "js_toLowerCase ''network'' = ''network''"
    "js_toLowerCase ''socket hang up'' = ''socket hang up''"
    "js_toLowerCase ''rate limit'' = ''rate limit''"
    "js_toLowerCase ''too many requests'' = ''too many requests''"
    by code_simp+
  show ?thesis
    by (simp add: transient_markers_def includes_lower_pattern low del: js_includes.simps)
qed

lemma isRetryableError_string_message:
  "has_string_message error \<Longrightarrow>
   isRetryableError error statuses
     = Inr (retryable_spec error (or_default statuses DEFAULT_retryableStatuses))"
  by (cases error)
    (simp_all add: isRetryableError_def retryable_spec_def Let_def status_loop_spec markers_spec
      del: js_includes.simps)

lemma isRetryableError_bad_message:
  "isRetryableError (BadMessageError t) statuses = Inl t"
  by (simp add: isRetryableError_def)

lemma isRetryableError_non_Error: "isRetryableError (NonError v) statuses = Inr False"
  by (simp add: isRetryableError_def)

lemma isRetryableError_refines:
  "isRetryableError error statuses = Inr True
     \<longleftrightarrow> retryable_spec error (or_default statuses DEFAULT_retryableStatuses)"
proof (cases "has_string_message error")
  case True
  then show ?thesis by (simp add: isRetryableError_string_message)
next
  case False
  then show ?thesis
    by (cases error)
      (simp_all add: isRetryableError_bad_message isRetryableError_non_Error retryable_spec_def)
qed

lemma isRetryableError_throws_iff:
  "isRetryableError error statuses = Inl t \<longleftrightarrow> error = BadMessageError t"
  by (cases error)
    (simp_all add: isRetryableError_string_message isRetryableError_bad_message
      isRetryableError_non_Error)

lemma includes_contains_ci:
  "js_includes msg pat' \<Longrightarrow> js_toLowerCase pat' = js_toLowerCase pat \<Longrightarrow> contains_ci msg pat"
  unfolding js_includes_iff contains_ci_def by blast

lemma retryable_paren_status:
  assumes "N \<in> set (or_default statuses DEFAULT_retryableStatuses)"
    and "js_includes msg (''('' @ js_show_nat N @ '')'')"
  shows "isRetryableError (ErrorObj msg) statuses = Inr True"
  unfolding isRetryableError_refines retryable_spec_def
  using assms includes_contains_ci [OF assms(2) refl] by auto

lemma retryable_marker:
  assumes "marker \<in> set transient_markers"
    and "js_includes msg pat'" and "js_toLowerCase pat' = js_toLowerCase marker"
  shows "isRetryableError (ErrorObj msg) statuses = Inr True"
  unfolding isRetryableError_refines retryable_spec_def
  using assms(1) includes_contains_ci [OF assms(2,3)] by auto

lemma show_429: "''('' @ js_show_nat 429 @ '')'' = ''(429)''" by code_simp
lemma show_500: "''('' @ js_show_nat 500 @ '')'' = ''(500)''" by code_simp

lemma retryable_examples:
  "js_includes msg ''(429)'' \<Longrightarrow> isRetryableError (ErrorObj msg) None = Inr True"
  "js_includes msg ''(500)'' \<Longrightarrow> isRetryableError (ErrorObj msg) None = Inr True"
  "js_includes msg ''timeout'' \<Longrightarrow> isRetryableError (ErrorObj msg) None = Inr True"
  "js_includes msg ''ECONNRESET'' \<Longrightarrow> isRetryableError (ErrorObj msg) None = Inr True"
  "js_includes msg ''rate limit'' \<Longrightarrow> isRetryableError (ErrorObj msg) None = Inr True"
proof -
  have m429: "429 \<in> set (or_default None DEFAULT_retryableStatuses)"
    and m500: "500 \<in> set (or_default None DEFAULT_retryableStatuses)"
    by (simp_all add: DEFAULT_retryableStatuses_def)
  show "js_includes msg ''(429)'' \<Longrightarrow> isRetryableError (ErrorObj msg) None = Inr True"
    using retryable_paren_status [OF m429, of msg] by (simp only: show_429)
  show "js_includes msg ''(500)'' \<Longrightarrow> isRetryableError (ErrorObj msg) None = Inr True"
    using retryable_paren_status [OF m500, of msg] by (simp only: show_500)
  have t: "''timeout'' \<in> set transient_markers" and e: "''econnreset'' \<in> set transient_markers"
    and r: "''rate limit'' \<in> set transient_markers"
    by (simp_all add: transient_markers_def)
  have low: "js_toLowerCase ''ECONNRESET'' = js_toLowerCase ''econnreset''" by code_simp
  show "js_includes msg ''timeout'' \<Longrightarrow> isRetryableError (ErrorObj msg) None = Inr True"
    using retryable_marker [OF t _ refl] by blast
  show "js_includes msg ''ECONNRESET'' \<Longrightarrow> isRetryableError (ErrorObj msg) None = Inr True"
    using retryable_marker [OF e _ low] by blast
  show "js_includes msg ''rate limit'' \<Longrightarrow> isRetryableError (ErrorObj msg) None = Inr True"
    using retryable_marker [OF r _ refl] by blast
qed

lemma not_retryable_examples:
  "isRetryableError (ErrorObj ''(401)'') None = Inr False"
  "isRetryableError (ErrorObj ''(404)'') None = Inr False"
  "isRetryableError (ErrorObj ''Puter API error (401): Unauthorized'') None = Inr False"
  "isRetryableError (ErrorObj ''Puter API error (404): Not found'') None = Inr False"
  by code_simp+

subsection \<open>Claim C6\<close>

text \<open>
  C6. For statuses that are HTTP status codes (natural numbers up to
  \<open>MAX_SAFE_INTEGER\<close>, which a template literal writes in decimal digits),
  \<open>isRetryableError(error, retryableStatuses)\<close> returns true exactly when \<open>error\<close> is an
  \<open>Error\<close> whose message contains, up to the case of letters, \<open>(N)\<close> or \<open>status N\<close> for
  some \<open>N\<close> in \<open>retryableStatuses\<close> (the default list when the argument is absent), or
  one of the seven fixed markers; it throws only for an \<open>Error\<close> whose message is not a
  string. In particular, with the default statuses, it returns true for every message
  containing \<open>(429)\<close>, \<open>(500)\<close>, \<open>timeout\<close>, \<open>ECONNRESET\<close> or \<open>rate limit\<close>, false for the
  messages \<open>(401)\<close> and \<open>(404)\<close> (alone or in the client's error text), and false for
  every value that is not an \<open>Error\<close>.
\<close>

theorem isRetryableError_classification:
  assumes "\<forall>N \<in> set (or_default statuses DEFAULT_retryableStatuses). N \<le> MAX_SAFE_INTEGER"
  shows "(isRetryableError error statuses = Inr True
      \<longleftrightarrow> retryable_spec error (or_default statuses DEFAULT_retryableStatuses))
   \<and> (isRetryableError error statuses = Inl t \<longleftrightarrow> error = BadMessageError t)
   \<and> (js_includes msg ''(429)'' \<longrightarrow> isRetryableError (ErrorObj msg) None = Inr True)
   \<and> (js_includes msg ''(500)'' \<longrightarrow> isRetryableError (ErrorObj msg) None = Inr True)
   \<and> (js_includes msg ''timeout'' \<longrightarrow> isRetryableError (ErrorObj msg) None = Inr True)
   \<and> (js_includes msg ''ECONNRESET'' \<longrightarrow> isRetryableError (ErrorObj msg) None = Inr True)
   \<and> (js_includes msg ''rate limit'' \<longrightarrow> isRetryableError (ErrorObj msg) None = Inr True)
   \<and> isRetryableError (ErrorObj ''(401)'') None = Inr False
   \<and> isRetryableError (ErrorObj ''(404)'') None = Inr False
   \<and> isRetryableError (ErrorObj ''Puter API error (401): Unauthorized'') None = Inr False
   \<and> isRetryableError (ErrorObj ''Puter API error (404): Not found'') None = Inr False
   \<and> isRetryableError (NonError v) statuses = Inr False"
  using isRetryableError_refines [of error statuses] retryable_examples [of msg]
    isRetryableError_throws_iff [of error statuses t]
    not_retryable_examples isRetryableError_non_Error [of v statuses]
  by blast

text \<open>
  The default statuses and the custom list of the tests are within the bound; the
  message of a rate limit is retryable, \<open>status 500\<close> is not when only 418 is listed.
\<close>

theorem isRetryableError_classification_witness:
  "js_includes ''Puter API error (429): Too many requests'' ''(429)''
   \<and> isRetryableError (ErrorObj ''Puter API error (429): Too many requests'') None = Inr True
   \<and> retryable_spec (ErrorObj ''ECONNRESET'') DEFAULT_retryableStatuses
   \<and> \<not> retryable_spec (ErrorObj ''status 500'') [418]
   \<and> isRetryableError (NonError (StringValue ''timeout'')) None = Inr False"
proof -
  have h1: "\<forall>N \<in> set (or_default None DEFAULT_retryableStatuses). N \<le> MAX_SAFE_INTEGER"
    by (simp add: DEFAULT_retryableStatuses_def MAX_SAFE_INTEGER_def)
  have h2: "\<forall>N \<in> set (or_default (Some [418]) DEFAULT_retryableStatuses). N \<le> MAX_SAFE_INTEGER"
    by (simp add: MAX_SAFE_INTEGER_def)
  have a: "js_includes ''Puter API error (429): Too many requests'' ''(429)''" by code_simp
  have b: "isRetryableError (ErrorObj ''ECONNRESET'') None = Inr True" by code_simp
  have c: "isRetryableError (ErrorObj ''status 500'') (Some [418]) = Inr False" by code_simp
  note t1 = isRetryableError_classification [OF h1, of "ErrorObj ''ECONNRESET''" "ErrorObj []"
        "''Puter API error (429): Too many requests''" "StringValue ''timeout''"]
  note t2 = isRetryableError_classification [OF h2, of "ErrorObj ''status 500''" "ErrorObj []"
        "''Puter API error (429): Too many requests''" "StringValue ''timeout''"]
  show ?thesis using a b c t1 t2 by simp
qed

section \<open>Properties of the retry engine\<close>

lemma retry_loop_after:
  "\<not> real attempt \<le> or_default (maxRetries options) DEFAULT_maxRetries \<Longrightarrow>
   \<exists>e. retry_loop rt operation options attempt lastError s
        = \<lparr>exit = ThrownAfterLoop e, calls = 0, caught = [], delays = [], final = s\<rparr>"
  by (simp add: retry_loop.simps [of rt operation options attempt lastError s] Let_def)

lemma retry_loop_success:
  "real attempt \<le> or_default (maxRetries options) DEFAULT_maxRetries \<Longrightarrow>
   operation s = (Inr v, s1) \<Longrightarrow>
   retry_loop rt operation options attempt lastError s
     = \<lparr>exit = Returned v, calls = 1, caught = [], delays = [], final = s1\<rparr>"
  by (simp add: retry_loop.simps [of rt operation options attempt lastError s] Let_def)

lemma retry_loop_give_up:
  "real attempt \<le> or_default (maxRetries options) DEFAULT_maxRetries \<Longrightarrow>
   operation s = (Inl error, s1) \<Longrightarrow>
   catch_throws (real attempt = or_default (maxRetries options) DEFAULT_maxRetries) error
     (or_default (retryableStatuses options) DEFAULT_retryableStatuses) = Some x \<Longrightarrow>
   retry_loop rt operation options attempt lastError s
     = \<lparr>exit = ThrownInLoop x, calls = 1, caught = [error], delays = [], final = s1\<rparr>"
  by (auto simp add: retry_loop.simps [of rt operation options attempt lastError s] Let_def
      catch_throws_def split: sum.splits if_splits)

lemma retry_loop_again:
  assumes "real attempt \<le> or_default (maxRetries options) DEFAULT_maxRetries"
    and "operation s = (Inl error, s1)"
    and "catch_throws (real attempt = or_default (maxRetries options) DEFAULT_maxRetries) error
           (or_default (retryableStatuses options) DEFAULT_retryableStatuses) = None"
  shows "\<exists>delay s3 lastError' run.
     run = retry_loop rt operation options (Suc attempt) lastError' s3 \<and>
     retry_loop rt operation options attempt lastError s
       = run\<lparr>calls := calls run + 1, caught := error # caught run,
              delays := delay # delays run\<rparr>"
proof -
  from assms(3) obtain lastError' where le: "to_Error error = Inr lastError'"
    and sr: "shouldRetry (real attempt = or_default (maxRetries options) DEFAULT_maxRetries)
               error (or_default (retryableStatuses options) DEFAULT_retryableStatuses)
             = Inr True"
    by (auto simp: catch_throws_def split: sum.splits if_splits)
  obtain delay s2 where c:
    "calculateDelay rt (Num (real attempt))
       (delay_options (or_default (initialDelay options) DEFAULT_initialDelay)
          (or_default (maxDelay options) DEFAULT_maxDelay)
          (or_default (backoffFactor options) DEFAULT_backoffFactor)
          (or_default (jitter options) DEFAULT_jitter)) s1 = (delay, s2)"
    by fastforce
  define s3 where "s3 = (case onRetry options of None \<Rightarrow> s2
                         | Some callback \<Rightarrow> callback (attempt + 1) lastError' delay s2)"
  define run where "run = retry_loop rt operation options (Suc attempt) lastError' s3"
  have "retry_loop rt operation options attempt lastError s
       = run\<lparr>calls := calls run + 1, caught := error # caught run,
              delays := delay # delays run\<rparr>"
    using assms(1,2) le sr c
    by (simp add: retry_loop.simps [of rt operation options attempt lastError s] Let_def
        s3_def run_def)
  then show ?thesis using run_def by blast
qed





lemma catch_throws_last: "\<exists>x. catch_throws True error statuses = Some x"
  by (cases "to_Error error") (simp_all add: catch_throws_def shouldRetry_def)

text \<open>Runs with an integer bound that start inside the range of attempts.\<close>

lemma retry_loop_exits_in_loop:
  assumes m: "or_default (maxRetries options) DEFAULT_maxRetries = real_of_int M"
  shows "int attempt \<le> M \<Longrightarrow>
   (\<exists>v s0. exit (retry_loop rt operation options attempt lastError s) = Returned v
        \<and> operation s0 = (Inr v, final (retry_loop rt operation options attempt lastError s)))
   \<or> (\<exists>e. exit (retry_loop rt operation options attempt lastError s) = ThrownInLoop e)"
proof (induction "nat (M - int attempt)" arbitrary: attempt lastError s)
  case 0
  then have last: "real attempt = or_default (maxRetries options) DEFAULT_maxRetries"
    using m by simp
  then have le: "real attempt \<le> or_default (maxRetries options) DEFAULT_maxRetries" by simp
  obtain res s1 where op: "operation s = (res, s1)" by fastforce
  show ?case
  proof (cases res)
    case (Inl error)
    from last obtain x where "catch_throws
        (real attempt = or_default (maxRetries options) DEFAULT_maxRetries) error
        (or_default (retryableStatuses options) DEFAULT_retryableStatuses) = Some x"
      using catch_throws_last [of error] by auto
    with op Inl le show ?thesis
      using retry_loop_give_up [of attempt options operation s error s1 x rt lastError] by simp
  next
    case (Inr v)
    with op le show ?thesis
      using retry_loop_success [of attempt options operation s v s1 rt lastError] by auto
  qed
next
  case (Suc k)
  then have le: "real attempt \<le> or_default (maxRetries options) DEFAULT_maxRetries"
    using m by simp
  obtain res s1 where op: "operation s = (res, s1)" by fastforce
  show ?case
  proof (cases res)
    case (Inr v)
    with op le show ?thesis
      using retry_loop_success [of attempt options operation s v s1 rt lastError] by auto
  next
    case (Inl error)
    show ?thesis
    proof (cases "catch_throws
        (real attempt = or_default (maxRetries options) DEFAULT_maxRetries) error
        (or_default (retryableStatuses options) DEFAULT_retryableStatuses)")
      case (Some x)
      with op Inl le show ?thesis
        using retry_loop_give_up [of attempt options operation s error s1 x rt lastError] by simp
    next
      case None
      from retry_loop_again [of attempt options operation s error s1 rt lastError] le op Inl None
      obtain delay s3 lastError' run where
        run: "run = retry_loop rt operation options (Suc attempt) lastError' s3"
        and eq: "retry_loop rt operation options attempt lastError s
                   = run\<lparr>calls := calls run + 1, caught := error # caught run,
                          delays := delay # delays run\<rparr>"
        by blast
      have "k = nat (M - int (Suc attempt))" using Suc.hyps(2) by linarith
      moreover have "int (Suc attempt) \<le> M" using Suc.hyps(2) by linarith
      ultimately have
        "(\<exists>v s0. exit run = Returned v \<and> operation s0 = (Inr v, final run))
         \<or> (\<exists>e. exit run = ThrownInLoop e)"
        using Suc.hyps(1) [of "Suc attempt" lastError' s3] run by simp
      then show ?thesis by (simp add: eq)
    qed
  qed
qed


text \<open>Runs with any bound.\<close>

lemma out_of_range:
  "0 = nat (\<lfloor>x\<rfloor> + 1 - int attempt) \<Longrightarrow> \<not> real attempt \<le> x"
  by linarith

lemma in_range:
  "Suc k = nat (\<lfloor>x\<rfloor> + 1 - int attempt) \<Longrightarrow> real attempt \<le> x"
  by linarith

lemma next_in_range:
  "Suc k = nat (\<lfloor>x\<rfloor> + 1 - int attempt) \<Longrightarrow> k = nat (\<lfloor>x\<rfloor> + 1 - int (Suc attempt))"
  by linarith



lemma retry_loop_returned:
  "exit (retry_loop rt operation options attempt lastError s) = Returned v \<Longrightarrow>
   \<exists>s0 s1. operation s0 = (Inr v, s1)"
proof (induction "nat (\<lfloor>or_default (maxRetries options) DEFAULT_maxRetries\<rfloor> + 1 - int attempt)"
    arbitrary: attempt lastError s)
  case 0
  from retry_loop_after [OF out_of_range [OF "0.hyps"], of rt operation lastError s] "0.prems"
  show ?case by auto
next
  case (Suc k)
  note le = in_range [OF Suc.hyps(2)]
  obtain res s1 where op: "operation s = (res, s1)" by fastforce
  show ?case
  proof (cases res)
    case (Inr w)
    with op le Suc.prems show ?thesis
      using retry_loop_success [of attempt options operation s w s1 rt lastError] by auto
  next
    case (Inl error)
    show ?thesis
    proof (cases "catch_throws
        (real attempt = or_default (maxRetries options) DEFAULT_maxRetries) error
        (or_default (retryableStatuses options) DEFAULT_retryableStatuses)")
      case (Some x)
      with op Inl le Suc.prems show ?thesis
        using retry_loop_give_up [of attempt options operation s error s1 x rt lastError]
        by auto
    next
      case None
      with retry_loop_again [of attempt options operation s error s1 rt lastError] le op Inl
      obtain delay s3 lastError' run where
        run: "run = retry_loop rt operation options (Suc attempt) lastError' s3"
        and eq: "retry_loop rt operation options attempt lastError s
                   = run\<lparr>calls := calls run + 1, caught := error # caught run,
                          delays := delay # delays run\<rparr>"
        by blast
      have "exit run = Returned v" using Suc.prems by (simp add: eq)
      then show ?thesis
        using Suc.hyps(1) [OF next_in_range [OF Suc.hyps(2)], of lastError' s3] run by simp
    qed
  qed
qed

lemma withRetry_always_throwing:
  assumes "\<forall>s. \<exists>e s1. operation s = (Inl e, s1)"
  shows "\<exists>e. outcome (exit (withRetry rt operation options s)) = Inl e"
proof (cases "exit (withRetry rt operation options s)")
  case (Returned v)
  then have "\<exists>s0 s1. operation s0 = (Inr v, s1)"
    unfolding withRetry_def by (rule retry_loop_returned)
  with assms show ?thesis by (metis Inl_Inr_False prod.inject)
qed simp_all

section \<open>Claims about the retry engine\<close>

subsection \<open>Claim C7\<close>

lemma round_near: "\<bar>real_of_int \<lfloor>x + 1 / 2\<rfloor> - x\<bar> \<le> 1 / 2"
  by linarith

lemma round_int: "x \<in> \<int> \<Longrightarrow> real_of_int \<lfloor>x + 1 / 2\<rfloor> = x"
proof -
  assume "x \<in> \<int>"
  then obtain k where "x = of_int k" by (auto elim: Ints_cases)
  then show ?thesis by simp
qed

lemma calculateDelay_no_jitter_eq:
  "initialDelay options = Some d \<Longrightarrow> backoffFactor options = Some f \<Longrightarrow>
   maxDelay options = Some m \<Longrightarrow> jitter options = Some False \<Longrightarrow>
   calculateDelay rt attempt options s
     = (js_Math_round (js_Math_min (num_times rt d (Math_pow rt f attempt)) m), s)"
  by (simp add: calculateDelay_def Let_def)

text \<open>
  C7, as amended. For every attempt and every policy with jitter disabled,
  \<open>calculateDelay(attempt, {initialDelay = d, backoffFactor = f, maxDelay = m})\<close> is
  \<open>Math.round(Math.min(d * Math.pow(f, attempt), m))\<close>, the product and the power
  being those of doubles, and draws no random number. Whenever the attempt is a
  natural number, \<open>d\<close>, \<open>f\<close> and \<open>m\<close> are finite and the product is exact, that is,
  equal to \<open>d * f^attempt\<close>, the result is \<open>min(d * f^attempt, m)\<close> rounded to the nearest
  integer (a tie upwards): at most one half away from it, and equal to it whenever that
  value is an integer.
\<close>

theorem calculateDelay_without_jitter:
  assumes "initialDelay options = Some d" and "backoffFactor options = Some f"
    and "maxDelay options = Some m" and "jitter options = Some False"
  shows "calculateDelay rt attempt options s
       = (js_Math_round (js_Math_min (num_times rt d (Math_pow rt f attempt)) m), s)
    \<and> (attempt = Num (real n) \<and> d = Num x \<and> f = Num y \<and> m = Num z
        \<and> num_times rt (Num x) (Math_pow rt (Num y) (Num (real n))) = Num (x * y ^ n)
        \<longrightarrow>
          calculateDelay rt attempt options s
            = (Num (real_of_int \<lfloor>min (x * y ^ n) z + 1 / 2\<rfloor>), s)
          \<and> \<bar>real_of_int \<lfloor>min (x * y ^ n) z + 1 / 2\<rfloor> - min (x * y ^ n) z\<bar> \<le> 1 / 2
          \<and> (min (x * y ^ n) z \<in> \<int> \<longrightarrow>
                calculateDelay rt attempt options s = (Num (min (x * y ^ n) z), s)))"
proof -
  have eq: "calculateDelay rt attempt options s
       = (js_Math_round (js_Math_min (num_times rt d (Math_pow rt f attempt)) m), s)"
    using assms by (rule calculateDelay_no_jitter_eq)
  have exact: "calculateDelay rt attempt options s
            = (Num (real_of_int \<lfloor>min (x * y ^ n) z + 1 / 2\<rfloor>), s)"
    if "attempt = Num (real n) \<and> d = Num x \<and> f = Num y \<and> m = Num z
        \<and> num_times rt (Num x) (Math_pow rt (Num y) (Num (real n))) = Num (x * y ^ n)"
    using that by (simp add: calculateDelay_no_jitter_eq [OF assms])
  have whole: "calculateDelay rt attempt options s = (Num (min (x * y ^ n) z), s)"
    if "attempt = Num (real n) \<and> d = Num x \<and> f = Num y \<and> m = Num z
        \<and> num_times rt (Num x) (Math_pow rt (Num y) (Num (real n))) = Num (x * y ^ n)"
      and "min (x * y ^ n) z \<in> \<int>"
    using exact [OF that(1)] round_int [OF that(2)] by simp
  from eq exact whole round_near [of "min (x * y ^ n) z"] show ?thesis by blast
qed

text \<open>The second test of \<open>calculateDelay\<close>: attempt 10 is capped at \<open>maxDelay = 5000\<close>.\<close>

theorem calculateDelay_without_jitter_witness:
  "jitter (delay_options (Num 1000) (Num 5000) (Num 2) False :: nat RetryOptions) = Some False
   \<and> num_times sample_runtime (Num 1000) (Math_pow sample_runtime (Num 2) (Num (real 10)))
       = Num (1000 * 2 ^ 10)
   \<and> calculateDelay sample_runtime (Num 10)
        (delay_options (Num 1000) (Num 5000) (Num 2) False) (0::nat)
       = (Num 5000, 0)"
proof -
  have h: "initialDelay (delay_options (Num 1000) (Num 5000) (Num 2) False :: nat RetryOptions)
             = Some (Num 1000)"
    "backoffFactor (delay_options (Num 1000) (Num 5000) (Num 2) False :: nat RetryOptions)
       = Some (Num 2)"
    "maxDelay (delay_options (Num 1000) (Num 5000) (Num 2) False :: nat RetryOptions)
       = Some (Num 5000)"
    "jitter (delay_options (Num 1000) (Num 5000) (Num 2) False :: nat RetryOptions) = Some False"
    by (simp_all add: delay_options_def)
  have e: "num_times sample_runtime (Num 1000) (Math_pow sample_runtime (Num 2) (Num (real 10)))
       = Num (1000 * 2 ^ 10)"
    by (simp add: sample_runtime_def)
  have a: "Num 10 = Num (real 10)" by simp
  have i: "min ((1000::real) * 2 ^ 10) 5000 \<in> \<int>" by simp
  note t = calculateDelay_without_jitter [OF h, of sample_runtime "Num 10" "0::nat" 10 1000 2 5000]
  have "calculateDelay sample_runtime (Num 10)
          (delay_options (Num 1000) (Num 5000) (Num 2) False)
          (0::nat) = (Num (min (1000 * 2 ^ 10) 5000), 0)"
    using t e a i by blast
  then have "calculateDelay sample_runtime (Num 10)
          (delay_options (Num 1000) (Num 5000) (Num 2) False) (0::nat) = (Num 5000, 0)"
    by simp
  with h(4) e show ?thesis by blast
qed

text \<open>
  C7 as stated fails where the capped delay is not an integer: with \<open>d = 1\<close>,
  \<open>f = 1.5\<close> and attempt 1, where doubles compute \<open>1 * 1.5^1 = 1.5\<close> exactly, the
  result is 2, not 1.5.
\<close>

theorem calculateDelay_exact_counterexample:
  "calculateDelay sample_runtime (Num 1)
      (delay_options (Num 1) (Num 30000) (Num (3 / 2)) False) (0::nat)
     = (Num 2, 0)
   \<and> Num 2 \<noteq> Num (min (1 * (3 / 2) ^ 1) 30000)"
  by (simp add: calculateDelay_def delay_options_def Let_def sample_runtime_def)

subsection \<open>Claim C2\<close>



subsection \<open>Claim C3\<close>




subsection \<open>Claim C10\<close>

text \<open>
  C10 as stated fails for a \<open>maxRetries\<close> that is not an integer: with
  \<open>maxRetries = 0.5\<close> and an operation that always fails with status 500, attempt 0
  is retried (0 is not 0.5), attempt 1 is beyond the bound, and the \<open>RetryError\<close>
  after the loop is thrown.
\<close>

theorem withRetry_trailing_throw_counterexample:
  "0 \<le> or_default (maxRetries (max_retries_options (1 / 2) :: nat RetryOptions)) DEFAULT_maxRetries
   \<and> calls (withRetry sample_runtime
        (always_throws (ErrorObj ''Puter API error (500): Server error''))
        (max_retries_options (1 / 2)) 0) = 1
   \<and> exit (withRetry sample_runtime
        (always_throws (ErrorObj ''Puter API error (500): Server error''))
        (max_retries_options (1 / 2)) 0)
      = ThrownAfterLoop
          (RetryErrorObj ''Operation failed after 1.5 attempts'' (Num (3 / 2))
             (ErrorObj ''Puter API error (500): Server error''))"
  by code_simp

text \<open>
  C10, as amended. For every operation and every options whose \<open>maxRetries\<close> is an
  integer \<open>N \<ge> 0\<close> (the default 3 when absent), \<open>withRetry\<close> returns a value that the
  operation returned or throws from inside the attempt loop: the \<open>RetryError\<close> after
  the loop is never reached.
\<close>

theorem withRetry_trailing_throw_unreachable:
  assumes "or_default (maxRetries options) DEFAULT_maxRetries = real_of_int N" and "0 \<le> N"
  shows "((\<exists>v s0. exit (withRetry rt operation options s) = Returned v
             \<and> operation s0 = (Inr v, final (withRetry rt operation options s)))
          \<or> (\<exists>e. exit (withRetry rt operation options s) = ThrownInLoop e))
    \<and> (\<forall>e. exit (withRetry rt operation options s) \<noteq> ThrownAfterLoop e)"
proof -
  have "int 0 \<le> N" using assms(2) by simp
  from retry_loop_exits_in_loop [OF assms(1) this, of rt operation "ErrorObj ''Unknown error''" s]
  show ?thesis unfolding withRetry_def by auto
qed

text \<open>
  With \<open>maxRetries = 0\<close> the single failure is thrown from the loop; with the default
  options an operation that fails twice and then succeeds returns its value.
\<close>

theorem withRetry_trailing_throw_unreachable_witness:
  "or_default (maxRetries (max_retries_options 0 :: nat RetryOptions)) DEFAULT_maxRetries
     = real_of_int 0
   \<and> exit (withRetry sample_runtime
        (always_throws (ErrorObj ''Puter API error (500): Server error''))
        (max_retries_options 0) 0)
      = ThrownInLoop (ErrorObj ''Puter API error (500): Server error'')
   \<and> exit (withRetry sample_runtime
        (throws_until 2 (ErrorObj ''Puter API error (500): Server error''))
        empty_options 0)
      = Returned 2"
proof -
  have a: "or_default (maxRetries (max_retries_options 0 :: nat RetryOptions)) DEFAULT_maxRetries
      = real_of_int 0"
    by (simp add: max_retries_options_def empty_options_def)
  have b: "exit (withRetry sample_runtime
        (always_throws (ErrorObj ''Puter API error (500): Server error''))
        (max_retries_options 0) 0)
      = ThrownInLoop (ErrorObj ''Puter API error (500): Server error'')" by code_simp
  have c: "exit (withRetry sample_runtime
        (throws_until 2 (ErrorObj ''Puter API error (500): Server error''))
        empty_options 0)
      = Returned 2" by code_simp
  show ?thesis
    using a b c
      withRetry_trailing_throw_unreachable [OF a, of sample_runtime
        "always_throws (ErrorObj ''Puter API error (500): Server error'')" 0]
    by simp
qed

section \<open>Properties of the stream decoder\<close>

lemma split_newline_nonempty: "split_newline s \<noteq> []"
  by (induction s) (auto split: list.splits)

lemma split_newline_no_newline: "newline \<notin> set s \<Longrightarrow> split_newline s = [s]"
  by (induction s) auto

lemma split_newline_line:
  "newline \<notin> set line \<Longrightarrow> split_newline (line @ newline # rest) = line # split_newline rest"
  by (induction line) (auto split: list.splits)

lemma last_split_newline: "newline \<notin> set (last (split_newline s))"
proof (induction s)
  case Nil
  then show ?case by simp
next
  case (Cons c cs)
  show ?case
  proof (cases "split_newline cs")
    case Nil
    then show ?thesis using split_newline_nonempty by blast
  next
    case (Cons x xs)
    with Cons.IH show ?thesis by (cases xs) auto
  qed
qed

lemma split_newline_append:
  "split_newline (a @ b) = butlast (split_newline a) @ split_newline (last (split_newline a) @ b)"
proof (induction a)
  case Nil
  then show ?case by simp
next
  case (Cons c cs)
  show ?case
  proof (cases "split_newline cs")
    case Nil
    then show ?thesis using split_newline_nonempty by blast
  next
    case outer: (Cons x xs)
    show ?thesis
    proof (cases xs)
      case Nil
      with outer Cons.IH show ?thesis by simp
    next
      case (Cons y ys)
      with outer Cons.IH show ?thesis by simp
    qed
  qed
qed

lemma line_chunks_Nil: "line_chunks parse [] = []"
  by (simp add: line_chunks_def List.map_filter_def)

lemma line_chunks_Cons:
  "line_chunks parse (l # ls) =
     (case line_chunk parse l of None \<Rightarrow> line_chunks parse ls
      | Some c \<Rightarrow> c # line_chunks parse ls)"
  by (simp add: line_chunks_def List.map_filter_def split: option.splits)

lemma line_chunks_append:
  "line_chunks parse (a @ b) = line_chunks parse a @ line_chunks parse b"
  by (simp add: line_chunks_def List.map_filter_def)

lemma until_done_Nil: "until_done [] = []"
  by (simp add: until_done_def)

lemma until_done_Cons:
  "until_done (c # cs) = (if chunk_done c then [c] else c # until_done cs)"
  by (simp add: until_done_def)

lemma until_done_none: "\<not> list_ex chunk_done xs \<Longrightarrow> until_done (xs @ ys) = xs @ until_done ys"
  by (induction xs) (auto simp: until_done_Cons)

lemma until_done_some: "list_ex chunk_done xs \<Longrightarrow> until_done (xs @ ys) = until_done xs"
  by (induction xs) (auto simp: until_done_Cons)

lemma until_done_id: "\<not> list_ex chunk_done xs \<Longrightarrow> until_done xs = xs"
  using until_done_none [of xs "[]"] by (simp add: until_done_Nil)

lemma process_lines_spec:
  "process_lines parse ls
     = (until_done (line_chunks parse ls), list_ex chunk_done (line_chunks parse ls))"
proof (induction ls)
  case Nil
  then show ?case by (simp add: line_chunks_Nil until_done_Nil)
next
  case (Cons l ls)
  then show ?case
    by (auto simp: line_chunks_Cons line_chunk_def until_done_Cons split: option.splits)
qed

lemma process_remaining_spec: "process_remaining parse buffer = line_chunks parse [buffer]"
  by (simp add: process_remaining_def line_chunks_Cons line_chunks_Nil line_chunk_def
      split: option.splits)

lemma decode_spec_no_newline:
  "newline \<notin> set buffer \<Longrightarrow> decode_spec parse buffer = line_chunks parse [buffer]"
  by (simp add: decode_spec_def split_newline_no_newline line_chunks_Nil)

lemma decode_spec_append:
  "decode_spec parse (a @ b) =
     (if list_ex chunk_done (line_chunks parse (butlast (split_newline a)))
      then until_done (line_chunks parse (butlast (split_newline a)))
      else line_chunks parse (butlast (split_newline a))
             @ decode_spec parse (last (split_newline a) @ b))"
proof -
  let ?A = "butlast (split_newline a)"
  let ?S = "split_newline (last (split_newline a) @ b)"
  have ne: "?S \<noteq> []" by (rule split_newline_nonempty)
  have sp: "split_newline (a @ b) = ?A @ ?S" by (rule split_newline_append)
  have bl: "butlast (split_newline (a @ b)) = ?A @ butlast ?S"
    and la: "last (split_newline (a @ b)) = last ?S"
    using ne by (simp_all add: sp butlast_append)
  show ?thesis
    unfolding decode_spec_def [of parse "a @ b"] decode_spec_def [of parse "last (split_newline a) @ b"]
      Let_def bl la line_chunks_append
    by (auto simp: until_done_none until_done_some)
qed

lemma read_loop_spec:
  "newline \<notin> set buffer \<Longrightarrow> read_loop parse buffer reads = decode_spec parse (buffer @ concat reads)"
proof (induction reads arbitrary: buffer)
  case Nil
  then show ?case by (simp add: process_remaining_spec decode_spec_no_newline)
next
  case (Cons v reads)
  have "newline \<notin> set (last (split_newline (buffer @ v)))" by (rule last_split_newline)
  from Cons.IH [OF this]
  have ih: "read_loop parse (last (split_newline (buffer @ v))) reads
      = decode_spec parse (last (split_newline (buffer @ v)) @ concat reads)" .
  have spec: "decode_spec parse ((buffer @ v) @ concat reads) =
     (if list_ex chunk_done (line_chunks parse (butlast (split_newline (buffer @ v))))
      then until_done (line_chunks parse (butlast (split_newline (buffer @ v))))
      else line_chunks parse (butlast (split_newline (buffer @ v)))
             @ decode_spec parse (last (split_newline (buffer @ v)) @ concat reads))"
    by (rule decode_spec_append)
  have code: "read_loop parse buffer (v # reads) =
     (if list_ex chunk_done (line_chunks parse (butlast (split_newline (buffer @ v))))
      then until_done (line_chunks parse (butlast (split_newline (buffer @ v))))
      else line_chunks parse (butlast (split_newline (buffer @ v)))
             @ read_loop parse (last (split_newline (buffer @ v))) reads)"
    by (simp add: Let_def process_lines_spec until_done_id)
  have "read_loop parse buffer (v # reads) = decode_spec parse ((buffer @ v) @ concat reads)"
    by (simp only: spec code ih)
  then show ?case by simp
qed

subsection \<open>Claim C4\<close>

text \<open>
  C4. For every stream input, whatever the pieces it arrives in, the chunks yielded are
  those of the complete non-blank lines of the whole text, each parsed on its own, a
  line that does not parse being skipped, up to and including the first chunk whose
  \<open>done\<close> is true; when no such chunk occurs, the remaining partial line, if it is not
  blank and parses, is yielded as one last chunk.
\<close>

theorem chatStream_decode_refines:
  "chatStream_decode parse reads = decode_spec parse (concat reads)"
  using read_loop_spec [of "[]" parse reads] by (simp add: chatStream_decode_def)

text \<open>
  A stream in two pieces with a malformed line in the middle and no final newline: the
  malformed line is skipped and the last, unterminated line is yielded.
\<close>

theorem chatStream_decode_refines_witness:
  \<open>chatStream_decode sample_parse
      [''{"text":"Hel"}'' @ [newline] @ ''junk'' @ [newline] @ ''{"te'', ''xt":"lo"}'']
     = [text_chunk ''Hel'', text_chunk ''lo'']
   \<and> decode_spec sample_parse
      (concat [''{"text":"Hel"}'' @ [newline] @ ''junk'' @ [newline] @ ''{"te'', ''xt":"lo"}''])
     = [text_chunk ''Hel'', text_chunk ''lo'']\<close>
proof -
  have \<open>chatStream_decode sample_parse
      [''{"text":"Hel"}'' @ [newline] @ ''junk'' @ [newline] @ ''{"te'', ''xt":"lo"}'']
     = [text_chunk ''Hel'', text_chunk ''lo'']\<close>
    by code_simp
  then show ?thesis
    using chatStream_decode_refines [of sample_parse
        \<open>[''{"text":"Hel"}'' @ [newline] @ ''junk'' @ [newline] @ ''{"te'', ''xt":"lo"}'']\<close>]
    by simp
qed

subsection \<open>Claim C1\<close>

lemma done_line_facts:
  "newline \<notin> set done_line" "js_trim done_line \<noteq> []" "chunk_done done_chunk"
  by code_simp+

lemma decode_spec_three_lines:
  assumes "newline \<notin> set line1" and "newline \<notin> set line2"
    and "js_trim line1 \<noteq> []" and "js_trim line2 \<noteq> []"
    and "parse line1 = Some chunk1" and "parse line2 = Some chunk2"
    and "\<not> chunk_done chunk1" and "\<not> chunk_done chunk2"
    and "parse done_line = Some done_chunk"
  shows "decode_spec parse (line1 @ [newline] @ line2 @ [newline] @ done_line @ [newline] @ extra)
           = [chunk1, chunk2, done_chunk]"
proof -
  have sp: "split_newline (line1 @ [newline] @ line2 @ [newline] @ done_line @ [newline] @ extra)
      = line1 # line2 # done_line # split_newline extra"
    using assms(1,2) done_line_facts(1) by (simp add: split_newline_line)
  have bl: "butlast (line1 # line2 # done_line # split_newline extra)
      = line1 # line2 # done_line # butlast (split_newline extra)"
    using split_newline_nonempty [of extra] by simp
  have ch: "line_chunks parse (line1 # line2 # done_line # butlast (split_newline extra))
      = chunk1 # chunk2 # done_chunk # line_chunks parse (butlast (split_newline extra))"
    using assms(3-6,9) done_line_facts(2) by (simp add: line_chunks_Cons line_chunk_def)
  show ?thesis
    unfolding decode_spec_def Let_def sp bl ch
    using assms(7,8) done_line_facts(3) by (simp add: until_done_Cons)
qed

text \<open>
  C1. For every wire stream whose text is \<open>line1\<close>, \<open>line2\<close> and \<open>{"done":true}\<close>, each
  followed by a newline, where \<open>line1\<close> and \<open>line2\<close> are lines that parse to chunks
  without a true \<open>done\<close>, and for every way of cutting that text (and whatever follows
  it) into arriving pieces, the decoder yields exactly the chunk of \<open>line1\<close>, the chunk
  of \<open>line2\<close> and \<open>{done: true}\<close>, in this order, and nothing of what follows.
\<close>

theorem chatStream_decode_three_lines:
  assumes "newline \<notin> set line1" and "newline \<notin> set line2"
    and "js_trim line1 \<noteq> []" and "js_trim line2 \<noteq> []"
    and "parse line1 = Some chunk1" and "parse line2 = Some chunk2"
    and "\<not> chunk_done chunk1" and "\<not> chunk_done chunk2"
    and "parse done_line = Some done_chunk"
    and "concat reads = line1 @ [newline] @ line2 @ [newline] @ done_line @ [newline] @ extra"
  shows "chatStream_decode parse reads = [chunk1, chunk2, done_chunk]"
proof -
  have "chatStream_decode parse reads = decode_spec parse (concat reads)"
    using read_loop_spec [of "[]" parse reads] by (simp add: chatStream_decode_def)
  then show ?thesis
    using decode_spec_three_lines [OF assms(1-9), of extra] assms(10) by simp
qed

text \<open>
  The stream of two text lines and the final line, followed by a late line, cut inside
  the second line: the three chunks are yielded and the late line is not.
\<close>

theorem chatStream_decode_three_lines_witness:
  \<open>concat [''{"text":"Hel"}'' @ [newline] @ ''{"te'',
             ''xt":"lo"}'' @ [newline] @ ''{"done":true}'' @ [newline] @ ''{"text":"Hel"}'']
     = text_line ''Hel'' @ [newline] @ text_line ''lo'' @ [newline] @ done_line @ [newline]
         @ ''{"text":"Hel"}''
   \<and> sample_parse (text_line ''Hel'') = Some (text_chunk ''Hel'')
   \<and> sample_parse (text_line ''lo'') = Some (text_chunk ''lo'')
   \<and> sample_parse done_line = Some done_chunk
   \<and> chatStream_decode sample_parse
       [''{"text":"Hel"}'' @ [newline] @ ''{"te'',
        ''xt":"lo"}'' @ [newline] @ ''{"done":true}'' @ [newline] @ ''{"text":"Hel"}'']
     = [text_chunk ''Hel'', text_chunk ''lo'', done_chunk]\<close>
proof -
  have h: "newline \<notin> set (text_line ''Hel'')" "newline \<notin> set (text_line ''lo'')"
    "js_trim (text_line ''Hel'') \<noteq> []" "js_trim (text_line ''lo'') \<noteq> []"
    "sample_parse (text_line ''Hel'') = Some (text_chunk ''Hel'')"
    "sample_parse (text_line ''lo'') = Some (text_chunk ''lo'')"
    "\<not> chunk_done (text_chunk ''Hel'')" "\<not> chunk_done (text_chunk ''lo'')"
    "sample_parse done_line = Some done_chunk"
    by code_simp+
  have c: \<open>concat [''{"text":"Hel"}'' @ [newline] @ ''{"te'',
             ''xt":"lo"}'' @ [newline] @ ''{"done":true}'' @ [newline] @ ''{"text":"Hel"}'']
     = text_line ''Hel'' @ [newline] @ text_line ''lo'' @ [newline] @ done_line @ [newline]
         @ ''{"text":"Hel"}''\<close>
    by (simp add: text_line_def done_line_def)
  show ?thesis
    using h(5,6,9) c chatStream_decode_three_lines [OF h c] by simp
qed

section \<open>Properties of the client\<close>

subsection \<open>listModels\<close>

lemma listModels_total: "\<exists>models. fst (listModels pf c s) = Inr models"
  by (simp add: listModels_def Let_def split: sum.splits)

lemma listModels_fallback:
  assumes "\<forall>s0. \<exists>e s1. listModels_operation pf c s0 = (Inl e, s1)"
  shows "fst (listModels pf c s) = Inr (DefaultCatalog getDefaultModels)"
proof -
  obtain e where "outcome (exit (withRetry (runtime pf) (listModels_operation pf c)
      (retryOptions pf c) s)) = Inl e"
    using withRetry_always_throwing [OF assms] by blast
  then show ?thesis by (simp add: listModels_def Let_def)
qed

lemma listModels_operation_fetch_fails:
  "platform_fetch pf
     \<lparr>url = apiUrl c @ ''/puterai/chat/models/details'', http_method = ''GET'',
      headers = [(''Authorization'', ''Bearer '' @ authToken c)],
      body = None, abort_after = None\<rparr> s0 = (Inl e, s1)
   \<Longrightarrow> listModels_operation pf c s0 = (Inl e, s1)"
  by (simp add: listModels_operation_def)

lemma getDefaultModels_facts:
  "getDefaultModels \<noteq> []"
  "\<exists>m \<in> set getDefaultModels. model_id m = ''claude-opus-4-5''"
  "\<exists>m \<in> set getDefaultModels. provider m = ''anthropic''"
  by (simp_all add: getDefaultModels_def model_info_def)

subsection \<open>testConnection\<close>

lemma testConnection_total: "\<exists>b. fst (testConnection pf c s) = Inr b"
proof -
  obtain res s1 where "testConnection_try pf c s = (res, s1)" by fastforce
  then show ?thesis by (cases res) (auto simp add: testConnection_def)
qed

lemma message_content_truthy_iff:
  "message_content_truthy response = Inr True \<longleftrightarrow> carries_content response"
proof (cases response)
  case (JObject fields)
  show ?thesis
  proof (cases "map_of fields ''message''")
    case None
    with JObject show ?thesis by (simp add: message_content_truthy_def carries_content_def)
  next
    case (Some message)
    with JObject show ?thesis
      by (cases message)
        (auto simp add: message_content_truthy_def carries_content_def split: option.splits)
  qed
qed (simp_all add: message_content_truthy_def carries_content_def)

lemma testConnection_true_iff:
  "fst (testConnection pf c s) = Inr True \<longleftrightarrow>
     (\<exists>response. fst (chat pf c probe_messages probe_options s) = Inr response
        \<and> carries_content response)"
proof -
  obtain res s1 where ch: "chat pf c probe_messages probe_options s = (res, s1)" by fastforce
  show ?thesis
  proof (cases res)
    case (Inl e)
    with ch show ?thesis by (simp add: testConnection_def testConnection_try_def)
  next
    case (Inr response)
    with ch message_content_truthy_iff [of response] show ?thesis
      by (cases "message_content_truthy response")
        (auto simp add: testConnection_def testConnection_try_def)
  qed
qed

lemma testConnection_chat_throws:
  "fst (chat pf c probe_messages probe_options s) = Inl e \<Longrightarrow>
   fst (testConnection pf c s) = Inr False"
  by (cases "chat pf c probe_messages probe_options s")
    (simp add: testConnection_def testConnection_try_def)

lemma carries_content_string:
  "carries_content
     (JObject [(''message'', JObject [(''role'', JString r), (''content'', JString t)])])
   \<longleftrightarrow> t \<noteq> []"
  by (simp add: carries_content_def)

subsection \<open>Claim C8\<close>

text \<open>
  C8. \<open>listModels\<close> never propagates an error: it always returns a value. Whenever the
  underlying fetch fails on every attempt (more generally, whenever every attempt of
  the request fails), it returns the default catalog, which is a non-empty list with
  an entry of id \<open>claude-opus-4-5\<close> and an entry of provider \<open>anthropic\<close>.
\<close>

theorem listModels_never_throws:
  "(\<exists>models. fst (listModels pf c s) = Inr models)
   \<and> ((\<forall>req s0. \<exists>e s1. platform_fetch pf req s0 = (Inl e, s1)) \<longrightarrow>
        fst (listModels pf c s) = Inr (DefaultCatalog getDefaultModels))
   \<and> ((\<forall>s0. \<exists>e s1. listModels_operation pf c s0 = (Inl e, s1)) \<longrightarrow>
        fst (listModels pf c s) = Inr (DefaultCatalog getDefaultModels))
   \<and> getDefaultModels \<noteq> []
   \<and> (\<exists>m \<in> set getDefaultModels. model_id m = ''claude-opus-4-5'')
   \<and> (\<exists>m \<in> set getDefaultModels. provider m = ''anthropic'')"
proof -
  have op: "fst (listModels pf c s) = Inr (DefaultCatalog getDefaultModels)"
    if "\<forall>s0. \<exists>e s1. listModels_operation pf c s0 = (Inl e, s1)"
    using that by (rule listModels_fallback)
  have "fst (listModels pf c s) = Inr (DefaultCatalog getDefaultModels)"
    if f: "\<forall>req s0. \<exists>e s1. platform_fetch pf req s0 = (Inl e, s1)"
  proof -
    have "\<forall>s0. \<exists>e s1. listModels_operation pf c s0 = (Inl e, s1)"
      using f listModels_operation_fetch_fails [of pf c] by blast
    then show ?thesis by (rule op)
  qed
  with op listModels_total [of pf c s] getDefaultModels_facts show ?thesis by blast
qed

text \<open>The client test: no retries and a fetch that always fails with status 401.\<close>

theorem listModels_never_throws_witness:
  "unauthorized_fetch
      \<lparr>url = [], http_method = [], headers = [], body = None, abort_after = None\<rparr> []
     = (Inl (ErrorObj ''Puter API error (401): Unauthorized''), [])
   \<and> fst (listModels failing_platform (PuterClient_new ''test-token'' (test_config False)) [])
     = Inr (DefaultCatalog getDefaultModels)
   \<and> model_id (hd getDefaultModels) = ''claude-opus-4-5''
   \<and> provider (hd getDefaultModels) = ''anthropic''"
proof -
  have f: "\<forall>req s0. \<exists>e s1. platform_fetch failing_platform req s0 = (Inl e, s1)"
    by (simp add: failing_platform_def unauthorized_fetch_def)
  have "fst (listModels failing_platform (PuterClient_new ''test-token'' (test_config False)) [])
     = Inr (DefaultCatalog getDefaultModels)"
    using f listModels_never_throws [of failing_platform
        "PuterClient_new ''test-token'' (test_config False)" "[]"]
    by blast
  then show ?thesis
    by (simp add: unauthorized_fetch_def getDefaultModels_def model_info_def)
qed

subsection \<open>Claim C9\<close>

text \<open>
  C9. \<open>testConnection\<close> never propagates an error: it always returns a boolean. It
  returns true if and only if the chat call returns a response that carries non-empty
  assistant message content (for a string content: a string that is not empty), and
  false whenever the chat call throws, which includes the exhaustion of the retries.
\<close>

theorem testConnection_never_throws:
  "(\<exists>b. fst (testConnection pf c s) = Inr b)
   \<and> (fst (testConnection pf c s) = Inr True \<longleftrightarrow>
        (\<exists>response. fst (chat pf c probe_messages probe_options s) = Inr response
           \<and> carries_content response))
   \<and> ((\<exists>e. fst (chat pf c probe_messages probe_options s) = Inl e) \<longrightarrow>
        fst (testConnection pf c s) = Inr False)
   \<and> (carries_content
        (JObject [(''message'', JObject [(''role'', JString r), (''content'', JString t)])])
       \<longleftrightarrow> t \<noteq> [])"
  using testConnection_total [of pf c s] testConnection_true_iff [of pf c s]
    testConnection_chat_throws [of pf c s] carries_content_string [of r t]
  by blast

text \<open>
  An answer \<open>OK\<close> gives true; a fetch that always fails with status 401 gives false.
\<close>

theorem testConnection_never_throws_witness:
  "fst (chat (answering_platform ''OK'') (PuterClient_new ''test-token'' empty_config)
          probe_messages probe_options [])
     = Inr (JObject [(''message'', JObject [(''role'', JString ''assistant''),
                                             (''content'', JString ''OK'')])])
   \<and> fst (testConnection (answering_platform ''OK'')
            (PuterClient_new ''test-token'' empty_config) []) = Inr True
   \<and> fst (chat failing_platform (PuterClient_new ''test-token'' empty_config)
          probe_messages probe_options [])
     = Inl (ErrorObj ''Puter API error (401): Unauthorized'')
   \<and> fst (testConnection failing_platform (PuterClient_new ''test-token'' empty_config) [])
     = Inr False"
proof -
  have a: "fst (chat (answering_platform ''OK'') (PuterClient_new ''test-token'' empty_config)
          probe_messages probe_options [])
     = Inr (JObject [(''message'', JObject [(''role'', JString ''assistant''),
                                             (''content'', JString ''OK'')])])"
    by code_simp
  have b: "fst (chat failing_platform (PuterClient_new ''test-token'' empty_config)
          probe_messages probe_options [])
     = Inl (ErrorObj ''Puter API error (401): Unauthorized'')"
    by code_simp
  note ok = testConnection_never_throws [of "answering_platform ''OK''"
        "PuterClient_new ''test-token'' empty_config" "[]" "''assistant''" "''OK''"]
  have "carries_content (JObject [(''message'', JObject [(''role'', JString ''assistant''),
                                             (''content'', JString ''OK'')])])"
    using ok [THEN conjunct2, THEN conjunct2, THEN conjunct2] by simp
  with a have t: "fst (testConnection (answering_platform ''OK'')
            (PuterClient_new ''test-token'' empty_config) []) = Inr True"
    using ok [THEN conjunct2, THEN conjunct1] by blast
  have "fst (testConnection failing_platform (PuterClient_new ''test-token'' empty_config) [])
     = Inr False"
    using b testConnection_never_throws [of failing_platform
        "PuterClient_new ''test-token'' empty_config" "[]"]
    by blast
  with a b t show ?thesis by blast
qed

subsection \<open>Claim C5\<close>

text \<open>
  C5 as stated fails for the field \<open>debug\<close>: a client constructed with \<open>debug: false\<close>
  whose config object gets \<open>debug = true\<close> afterwards still writes no diagnostic when
  \<open>listModels\<close> falls back, and its retry options still have no \<open>onRetry\<close>; a client
  constructed with \<open>debug: true\<close> writes the diagnostic.
\<close>

theorem debug_resolved_at_construction_counterexample:
  "debug (config (config_changed (test_config True)
       (PuterClient_new ''test-token'' (test_config False)))) = Some True
   \<and> snd (listModels failing_platform
       (config_changed (test_config True) (PuterClient_new ''test-token'' (test_config False))) [])
     = []
   \<and> snd (listModels failing_platform (PuterClient_new ''test-token'' (test_config True)) [])
     = [''[PuterClient] Failed to fetch models, using defaults'']
   \<and> onRetry (retryOptions failing_platform
       (config_changed (test_config True) (PuterClient_new ''test-token'' (test_config False))))
     = None"
proof -
  have a: "snd (listModels failing_platform
       (config_changed (test_config True) (PuterClient_new ''test-token'' (test_config False))) [])
     = []"
    by code_simp
  have b: "snd (listModels failing_platform (PuterClient_new ''test-token'' (test_config True)) [])
     = [''[PuterClient] Failed to fetch models, using defaults'']"
    by code_simp
  show ?thesis
    using a b
    by (simp add: config_changed_def PuterClient_new_def test_config_def retryOptions_def)
qed

text \<open>
  C5, as amended. For every client, the fields \<open>api_base_url\<close>, \<open>api_timeout_ms\<close>,
  \<open>max_retries\<close> and \<open>retry_delay_ms\<close> are resolved against their fixed defaults at call
  time: after a change of the config object held by the client, the base URL, the
  timeout and the retry options are those of the new contents. The field \<open>debug\<close> is
  resolved once, by the constructor: the flag of the client, and with it the presence
  of the \<open>onRetry\<close> diagnostic, stay those of the config at construction. When the
  change leaves the resolved \<open>debug\<close> as it was, the client is the one that the
  constructor builds from the new contents.
\<close>

theorem config_resolved_at_call_time:
  "apiUrl (config_changed cfg' (PuterClient_new token cfg))
     = (case api_base_url cfg' of None \<Rightarrow> DEFAULT_API_URL
        | Some u \<Rightarrow> if u = [] then DEFAULT_API_URL else u)
   \<and> timeout (config_changed cfg' (PuterClient_new token cfg))
     = (case api_timeout_ms cfg' of None \<Rightarrow> DEFAULT_TIMEOUT
        | Some t \<Rightarrow> if t = 0 then DEFAULT_TIMEOUT else t)
   \<and> maxRetries (retryOptions pf (config_changed cfg' (PuterClient_new token cfg)))
     = Some (or_default (max_retries cfg') DEFAULT_MAX_RETRIES)
   \<and> initialDelay (retryOptions pf (config_changed cfg' (PuterClient_new token cfg)))
     = Some (or_default (retry_delay_ms cfg') DEFAULT_RETRY_DELAY)
   \<and> this_debug (config_changed cfg' (PuterClient_new token cfg)) = or_default (debug cfg) False
   \<and> (onRetry (retryOptions pf (config_changed cfg' (PuterClient_new token cfg))) = None
        \<longleftrightarrow> \<not> or_default (debug cfg) False)
   \<and> (or_default (debug cfg') False = or_default (debug cfg) False \<longrightarrow>
        config_changed cfg' (PuterClient_new token cfg) = PuterClient_new token cfg')"
  by (simp add: config_changed_def PuterClient_new_def apiUrl_def timeout_def retryOptions_def)

text \<open>
  A client built with the empty config whose config object then gets a local URL, a
  timeout of five seconds, one retry and a delay of ten milliseconds.
\<close>

theorem config_resolved_at_call_time_witness:
  "or_default (debug moved_config) False = or_default (debug empty_config) False
   \<and> config_changed moved_config (PuterClient_new ''test-token'' empty_config)
       = PuterClient_new ''test-token'' moved_config
   \<and> apiUrl (config_changed moved_config (PuterClient_new ''test-token'' empty_config))
       = ''http://localhost:8080''
   \<and> timeout (config_changed moved_config (PuterClient_new ''test-token'' empty_config)) = 5000
   \<and> maxRetries (retryOptions failing_platform
        (config_changed moved_config (PuterClient_new ''test-token'' empty_config))) = Some 1
   \<and> initialDelay (retryOptions failing_platform
        (config_changed moved_config (PuterClient_new ''test-token'' empty_config))) = Some (Num 10)"
proof -
  have d: "or_default (debug moved_config) False = or_default (debug empty_config) False"
    by (simp add: moved_config_def empty_config_def)
  have v: "api_base_url moved_config = Some ''http://localhost:8080''"
    "api_timeout_ms moved_config = Some 5000" "max_retries moved_config = Some 1"
    "retry_delay_ms moved_config = Some (Num 10)"
    by (simp_all add: moved_config_def)
  note t = config_resolved_at_call_time [of moved_config "''test-token''" empty_config
        failing_platform]
  have 1: "apiUrl (config_changed moved_config (PuterClient_new ''test-token'' empty_config))
       = ''http://localhost:8080''"
    using t [THEN conjunct1] by (simp add: v)
  have 2: "timeout (config_changed moved_config (PuterClient_new ''test-token'' empty_config))
       = 5000"
    using t [THEN conjunct2, THEN conjunct1] by (simp add: v)
  have 3: "maxRetries (retryOptions failing_platform
        (config_changed moved_config (PuterClient_new ''test-token'' empty_config))) = Some 1"
    using t [THEN conjunct2, THEN conjunct2, THEN conjunct1] by (simp add: v)
  have 4: "initialDelay (retryOptions failing_platform
        (config_changed moved_config (PuterClient_new ''test-token'' empty_config))) = Some (Num 10)"
    using t [THEN conjunct2, THEN conjunct2, THEN conjunct2, THEN conjunct1] by (simp add: v)
  have 5: "config_changed moved_config (PuterClient_new ''test-token'' empty_config)
       = PuterClient_new ''test-token'' moved_config"
    using d t by blast
  from d 1 2 3 4 5 show ?thesis by blast
qed


end
